theory Spec2Isabelle
  imports Complex_Main "HOL-Library.Sublist"
begin

section \<open>The capture wizard of the front end (script of the file-input variant)\<close>

text \<open>
  The front end keeps four module-level variables (\<open>imageCounter\<close>, \<open>capturedImages\<close>,
  \<open>currentDraft\<close>, \<open>isProcessingFile\<close>), writes to a handful of DOM nodes and talks to one
  IndexedDB database with two object stores, \<open>settings\<close> (the API key under \<open>geminiKey\<close>) and
  \<open>session\<close> (the wizard progress under \<open>drug_scanner_session\<close>).  All of this is one record.

  The handlers are \<open>async\<close> functions.  Each runs until its first \<open>await\<close> and is then suspended;
  other events are handled while it waits.  So a handler is two functions on the record: the
  part before the \<open>await\<close>, which ends by queueing its continuation, and the continuation
  itself, run by the event that settles the awaited promise.  Calls of \<open>openDB\<close> settle in the
  order in which they were made; the flag \<open>ok\<close> of the settling event says whether the database
  opened.  Once it has opened, the request on the object store is taken to have its effect when
  it is issued: the \<open>session\<close> and \<open>settings\<close> maps are the contents that the next transaction
  observes.

  The texts written to the DOM are Vietnamese sentences; they are kept as constructors of small
  datatypes, one constructor per literal of the source.
\<close>

subsection \<open>State\<close>

record saved_session =
  saved_imageCounter :: nat
  saved_capturedImages :: "string list"

record store =
  settings :: "string \<rightharpoonup> string"
  session :: "string \<rightharpoonup> saved_session"

datatype instruction_html =
  InstructionOfStep nat | NoInstruction | InstructionCompleted

datatype button_text = ButtonInitial | ButtonScan | ButtonContinue | ButtonScanAnother

datatype display = DisplayNone | DisplayFlex

datatype loading_message = LoadingInitial | LoadingProcessingImage | LoadingAnalysing

datatype results_content = ResultsEmpty | ResultShown | ErrorBoxShown

text \<open>
  The handlers that wait for \<open>openDB\<close>: the confirm handler inside \<open>saveSession\<close>, the scan
  listener and the \<open>onclick\<close> handler of the scan button inside \<open>clearSession\<close>, and the load
  handler of the page inside \<open>getKey\<close>.
\<close>

datatype continuation =
  AwaitSaveSession | AwaitClearSession | AwaitClearThenReload | AwaitGetKeyOnLoad

datatype console_entry = SessionSaveFailed

record app =
  imageCounter :: nat
  capturedImages :: "string list"
  currentDraft :: "string option"
  isProcessingFile :: bool
  instructionsHtml :: instruction_html
  scanButtonText :: button_text
  scanButtonDisplay :: display
  scanButtonDisabled :: bool
  reviewHidden :: bool
  reviewImageSrc :: "string option"
  loadingHidden :: bool
  loadingText :: loading_message
  resultsHidden :: bool
  resultsContent :: results_content
  scanOnclickSet :: bool
  filePickerRequested :: bool
  suspended :: "continuation list"
  consoleErrors :: "console_entry list"
  db :: store

definition SESSION_ID :: string where
  "SESSION_ID = ''drug_scanner_session''"

definition geminiKey :: string where
  "geminiKey = ''geminiKey''"

text \<open>
  The page as the script finds it, with the variables at their initial values and nothing
  suspended.  The markup is not among the sources; \<open>ButtonInitial\<close> and \<open>LoadingInitial\<close> stand
  for its texts, and the visibility fields are overwritten by the first \<open>showCurrentStep\<close>.
\<close>

definition page0 :: app where
  "page0 =
     \<lparr>imageCounter = 0, capturedImages = [], currentDraft = None, isProcessingFile = False,
      instructionsHtml = NoInstruction, scanButtonText = ButtonInitial,
      scanButtonDisplay = DisplayFlex, scanButtonDisabled = False, reviewHidden = True,
      reviewImageSrc = None, loadingHidden = True, loadingText = LoadingInitial,
      resultsHidden = True, resultsContent = ResultsEmpty, scanOnclickSet = False,
      filePickerRequested = False,
      suspended = [], consoleErrors = [],
      db = \<lparr>settings = Map.empty, session = Map.empty\<rparr>\<rparr>"

subsection \<open>Screens\<close>

definition showCurrentStep :: "app \<Rightarrow> app" where
  "showCurrentStep a =
     (let a1 = a\<lparr>reviewHidden := True, loadingHidden := True, resultsHidden := True\<rparr>
      in if imageCounter a1 \<ge> 2 then a1
         else a1\<lparr>instructionsHtml := InstructionOfStep (imageCounter a1),
                 scanButtonText := (if imageCounter a1 = 0 then ButtonScan else ButtonContinue),
                 scanButtonDisplay := DisplayFlex,
                 scanButtonDisabled := False\<rparr>)"

definition showReview :: "string \<Rightarrow> app \<Rightarrow> app" where
  "showReview dataUri a =
     a\<lparr>instructionsHtml := NoInstruction, scanButtonDisplay := DisplayNone,
       reviewImageSrc := Some dataUri, reviewHidden := False\<rparr>"

text \<open>The part of \<open>processImages\<close> that runs before its first \<open>await\<close>.\<close>

definition processImages_begin :: "app \<Rightarrow> app" where
  "processImages_begin a =
     a\<lparr>instructionsHtml := NoInstruction, scanButtonDisplay := DisplayNone,
       reviewHidden := True, loadingHidden := False, loadingText := LoadingAnalysing\<rparr>"

text \<open>
  What \<open>processImages\<close> does once the extraction has settled: the result is shown, or, when
  anything in the \<open>try\<close> block failed, the error box with its retry button; the \<open>finally\<close> block
  parks the counter at 2 and sets the \<open>onclick\<close> property of the scan button.  The waiting of
  \<open>processImages\<close> itself (for the key and for the extraction service) lies between the two
  parts; no button of the wizard is on screen meanwhile.
\<close>

definition processImages_end :: "bool \<Rightarrow> app \<Rightarrow> app" where
  "processImages_end failed a =
     a\<lparr>resultsHidden := False,
       resultsContent := (if failed then ErrorBoxShown else ResultShown),
       loadingHidden := True, imageCounter := 2, scanButtonText := ButtonScanAnother,
       scanButtonDisplay := DisplayFlex, scanOnclickSet := True,
       instructionsHtml := InstructionCompleted\<rparr>"

subsection \<open>The object stores\<close>

text \<open>
  \<open>saveSession\<close> and \<open>clearSession\<close> as they continue once \<open>openDB\<close> has settled.  The record
  that \<open>saveSession\<close> stores is built at that moment, from the variables as they are then.  When
  the database did not open, \<open>saveSession\<close> reports to the console and \<open>clearSession\<close> does
  nothing.
\<close>

definition saveSession :: "bool \<Rightarrow> app \<Rightarrow> app" where
  "saveSession ok a =
     (if ok
      then a\<lparr>db := (db a)\<lparr>session := (session (db a))(SESSION_ID \<mapsto>
              \<lparr>saved_imageCounter = imageCounter a,
               saved_capturedImages = capturedImages a\<rparr>)\<rparr>\<rparr>
      else a\<lparr>consoleErrors := consoleErrors a @ [SessionSaveFailed]\<rparr>)"

definition clearSession :: "bool \<Rightarrow> app \<Rightarrow> app" where
  "clearSession ok a =
     (if ok then a\<lparr>db := (db a)\<lparr>session := (session (db a))(SESSION_ID := None)\<rparr>\<rparr> else a)"

definition getKey :: "app \<Rightarrow> string option" where
  "getKey a = settings (db a) geminiKey"

definition saveKey :: "string \<Rightarrow> app \<Rightarrow> app" where
  "saveKey k a = a\<lparr>db := (db a)\<lparr>settings := (settings (db a))(geminiKey \<mapsto> k)\<rparr>\<rparr>"

definition deleteKey :: "app \<Rightarrow> app" where
  "deleteKey a = a\<lparr>db := (db a)\<lparr>settings := (settings (db a))(geminiKey := None)\<rparr>\<rparr>"

text \<open>
  \<open>loadSession\<close> restores the two variables from the stored record.  No handler of the script
  calls it: the page always starts at step 0.
\<close>

definition loadSession :: "bool \<Rightarrow> app \<Rightarrow> bool \<times> app" where
  "loadSession ok a =
     (if ok then
        (case session (db a) SESSION_ID of
           None \<Rightarrow> (False, a)
         | Some d \<Rightarrow> (True, a\<lparr>imageCounter := saved_imageCounter d,
                              capturedImages := saved_capturedImages d\<rparr>))
      else (False, a))"

subsection \<open>Handlers, up to their first await\<close>

text \<open>
  The click listener of the scan button.  With the counter at 2 (a finished or failed run) it is
  the reset, which first waits for \<open>clearSession\<close>; otherwise it asks for a file, unless one is
  being processed.
\<close>

definition scanButton_listener :: "app \<Rightarrow> app" where
  "scanButton_listener a =
     (if imageCounter a \<ge> 2 then a\<lparr>suspended := suspended a @ [AwaitClearSession]\<rparr>
      else if isProcessingFile a then a
      else a\<lparr>filePickerRequested := True\<rparr>)"

text \<open>
  The \<open>onclick\<close> property of the scan button, set by \<open>processImages\<close>: that handler waits for
  \<open>clearSession\<close> and then reloads the page.  A click runs the listener, which was added when
  the script started, and then this handler if it is set.
\<close>

definition scanButton_onclick :: "app \<Rightarrow> app" where
  "scanButton_onclick a =
     (if scanOnclickSet a then a\<lparr>suspended := suspended a @ [AwaitClearThenReload]\<rparr> else a)"

definition scanButton_click :: "app \<Rightarrow> app" where
  "scanButton_click a = scanButton_onclick (scanButton_listener a)"

text \<open>
  A reload starts the script afresh on the same database; whatever was suspended is gone with
  the old page.  The load handler of the new page waits for \<open>getKey\<close> before it shows step 0.
  The retry button of the error box reloads the page and does nothing else; it is there while
  the error box is.
\<close>

definition reload :: "app \<Rightarrow> app" where
  "reload a = page0\<lparr>db := db a, suspended := [AwaitGetKeyOnLoad]\<rparr>"

definition retryButton_click :: "app \<Rightarrow> app" where
  "retryButton_click a = (if resultsContent a = ErrorBoxShown then reload a else a)"

text \<open>
  The change listener of the file input, up to \<open>await compressImage(file)\<close>.  The flag says
  whether a file was chosen.
\<close>

definition fileInput_change :: "bool \<Rightarrow> app \<Rightarrow> app" where
  "fileInput_change has_file a =
     (if isProcessingFile a then a
      else if \<not> has_file then a
      else a\<lparr>isProcessingFile := True, loadingHidden := False,
             loadingText := LoadingProcessingImage\<rparr>)"

definition retakeButton_click :: "app \<Rightarrow> app" where
  "retakeButton_click a = showCurrentStep (a\<lparr>currentDraft := None\<rparr>)"

text \<open>
  The confirm listener, up to \<open>await saveSession()\<close>: the draft is pushed and the counter
  advanced; the draft stays in place and the review panel stays open while the handler waits.
\<close>

definition confirmButton_click :: "app \<Rightarrow> app" where
  "confirmButton_click a =
     (case currentDraft a of
        None \<Rightarrow> a
      | Some d \<Rightarrow>
          if d = [] then a
          else
            let a1 = a\<lparr>capturedImages := capturedImages a @ [d]\<rparr>;
                a2 = a1\<lparr>imageCounter := imageCounter a1 + 1\<rparr>
            in a2\<lparr>suspended := suspended a2 @ [AwaitSaveSession]\<rparr>)"

subsection \<open>Continuations\<close>

text \<open>
  \<open>compressImage\<close> returns a promise that is only ever resolved, with the data URI of the
  re-encoded image; when the file cannot be decoded the promise never settles and this event
  never comes.  The continuation exists only while the change listener is suspended.
\<close>

definition compressImage_resolved :: "string \<Rightarrow> app \<Rightarrow> app" where
  "compressImage_resolved dataUri a =
     (if \<not> isProcessingFile a then a
      else (showReview dataUri
              (a\<lparr>currentDraft := Some dataUri, loadingHidden := True\<rparr>))
           \<lparr>isProcessingFile := False\<rparr>)"

definition confirm_resume :: "bool \<Rightarrow> app \<Rightarrow> app" where
  "confirm_resume ok a =
     (let a3 = saveSession ok a;
          a4 = a3\<lparr>currentDraft := None\<rparr>
      in if imageCounter a4 \<ge> 2 then processImages_begin a4 else showCurrentStep a4)"

definition reset_resume :: "bool \<Rightarrow> app \<Rightarrow> app" where
  "reset_resume ok a =
     showCurrentStep
       ((clearSession ok a)\<lparr>imageCounter := 0, capturedImages := [],
                             resultsContent := ResultsEmpty\<rparr>)"

text \<open>
  The load handler after \<open>getKey\<close>: step 0 is shown when the key could be read; when the
  database did not open, the handler ends with the rejection and shows nothing.
\<close>

definition load_resume :: "bool \<Rightarrow> app \<Rightarrow> app" where
  "load_resume ok a = (if ok then showCurrentStep a else a)"

text \<open>The oldest pending \<open>openDB\<close> settles, and the handler that made the call goes on.\<close>

definition openDB_settled :: "bool \<Rightarrow> app \<Rightarrow> app" where
  "openDB_settled ok a =
     (case suspended a of
        [] \<Rightarrow> a
      | k # ks \<Rightarrow>
          (case k of
             AwaitSaveSession \<Rightarrow> confirm_resume ok (a\<lparr>suspended := ks\<rparr>)
           | AwaitClearSession \<Rightarrow> reset_resume ok (a\<lparr>suspended := ks\<rparr>)
           | AwaitClearThenReload \<Rightarrow> reload (clearSession ok (a\<lparr>suspended := ks\<rparr>))
           | AwaitGetKeyOnLoad \<Rightarrow> load_resume ok (a\<lparr>suspended := ks\<rparr>)))"

subsection \<open>Handlers that run without another event in between\<close>

text \<open>
  A capture and a confirm in which the continuation follows its handler directly, and a reset
  in which the two handlers of the click go on one after the other.  These are the runs that
  the wizard of the specification speaks of.
\<close>

definition capture :: "string \<Rightarrow> app \<Rightarrow> app" where
  "capture dataUri a = compressImage_resolved dataUri (fileInput_change True a)"

definition confirm :: "bool \<Rightarrow> app \<Rightarrow> app" where
  "confirm ok a = openDB_settled ok (confirmButton_click a)"

definition reset :: "bool \<Rightarrow> bool \<Rightarrow> app \<Rightarrow> app" where
  "reset ok1 ok2 a = openDB_settled ok2 (openDB_settled ok1 (scanButton_click a))"

text \<open>
  The confirm run statement by statement: the state before the click, after the \<open>push\<close>, after
  the increment (here the handler is suspended), after \<open>saveSession\<close> has gone on, after the
  draft is cleared, and after the screen change.
\<close>

definition confirm_trace :: "bool \<Rightarrow> app \<Rightarrow> app list" where
  "confirm_trace ok a =
     (case currentDraft a of
        None \<Rightarrow> [a]
      | Some d \<Rightarrow>
          if d = [] then [a]
          else
            let a1 = a\<lparr>capturedImages := capturedImages a @ [d]\<rparr>;
                a2 = (a1\<lparr>imageCounter := imageCounter a1 + 1\<rparr>)
                       \<lparr>suspended := suspended a1 @ [AwaitSaveSession]\<rparr>;
                a3 = saveSession ok (a2\<lparr>suspended := suspended a1\<rparr>);
                a4 = a3\<lparr>currentDraft := None\<rparr>;
                a5 = (if imageCounter a4 \<ge> 2 then processImages_begin a4
                      else showCurrentStep a4)
            in [a, a1, a2, a3, a4, a5])"

text \<open>
  What a trace point shows: the counter, the images and the draft in memory, the stored
  session, and the console.
\<close>

definition observe ::
  "app \<Rightarrow> nat \<times> string list \<times> string option \<times> saved_session option \<times> console_entry list" where
  "observe a =
     (imageCounter a, capturedImages a, currentDraft a, session (db a) SESSION_ID,
      consoleErrors a)"

subsection \<open>The states of the wizard, in the words of the specification\<close>

text \<open>
  \<open>Idle i\<close>: step \<open>i\<close> of the two is on screen, with the scan button, nothing is drafted and no
  handler is suspended.  \<open>Reviewing i d\<close>: the review panel shows the draft \<open>d\<close> of step \<open>i\<close> and
  no handler is suspended.  \<open>Finalizing\<close>: the analysis overlay is up and the images are on their
  way to the extraction call.  \<open>Ended\<close> (the \<open>Done\<close> and \<open>Error\<close> of the specification): a run is
  over, \<open>processImages\<close> has parked the counter at 2 and set the \<open>onclick\<close> property of the scan
  button, and no handler is suspended.
\<close>

definition is_Idle :: "nat \<Rightarrow> app \<Rightarrow> bool" where
  "is_Idle i a \<longleftrightarrow>
     imageCounter a = i \<and> i < 2 \<and> currentDraft a = None \<and> \<not> isProcessingFile a \<and>
     suspended a = [] \<and> reviewHidden a \<and> scanButtonDisplay a = DisplayFlex \<and>
     \<not> scanButtonDisabled a \<and> instructionsHtml a = InstructionOfStep i"

definition is_Reviewing :: "nat \<Rightarrow> string \<Rightarrow> app \<Rightarrow> bool" where
  "is_Reviewing i d a \<longleftrightarrow>
     imageCounter a = i \<and> i < 2 \<and> currentDraft a = Some d \<and> d \<noteq> [] \<and>
     \<not> reviewHidden a \<and> reviewImageSrc a = Some d \<and> \<not> isProcessingFile a \<and>
     suspended a = []"

definition is_Ended :: "app \<Rightarrow> bool" where
  "is_Ended a \<longleftrightarrow> 2 \<le> imageCounter a \<and> scanOnclickSet a \<and> suspended a = []"

definition is_Finalizing :: "app \<Rightarrow> bool" where
  "is_Finalizing a \<longleftrightarrow>
     currentDraft a = None \<and> reviewHidden a \<and> scanButtonDisplay a = DisplayNone \<and>
     \<not> loadingHidden a \<and> loadingText a = LoadingAnalysing"

text \<open>
  The ordering that the specification asks of \<open>confirm\<close>, in its words: the updated session is
  in the store at a point of the handler where the step index in memory is not yet advanced.
\<close>

definition spec_persisted_before_advance :: "bool \<Rightarrow> app \<Rightarrow> bool" where
  "spec_persisted_before_advance ok a =
     (case currentDraft a of
        None \<Rightarrow> False
      | Some d \<Rightarrow>
          list_ex
            (\<lambda>s. session (db s) SESSION_ID =
                   Some \<lparr>saved_imageCounter = imageCounter a + 1,
                         saved_capturedImages = capturedImages a @ [d]\<rparr> \<and>
                 imageCounter s = imageCounter a)
            (confirm_trace ok a))"

text \<open>The page after a successful load, and a first draft under review on it.\<close>

definition loaded_page :: app where
  "loaded_page = openDB_settled True (reload page0)"

definition reviewing_first :: app where
  "reviewing_first = capture ''data:image/jpeg;base64,AA'' loaded_page"

text \<open>
  A run to its end: a key is stored, both steps are captured and confirmed, and the extraction
  has settled, with a result (\<open>finished_run\<close>) or with the error box (\<open>failed_run\<close>).
\<close>

definition analysing_run :: app where
  "analysing_run =
     confirm True (capture ''b'' (confirm True (saveKey ''secret'' reviewing_first)))"

definition finished_run :: app where
  "finished_run = processImages_end False analysing_run"

definition failed_run :: app where
  "failed_run = processImages_end True analysing_run"

text \<open>Capture-and-retake rounds, one per draft of the list.\<close>

definition retake_rounds :: "string list \<Rightarrow> app \<Rightarrow> app" where
  "retake_rounds ds a = fold (\<lambda>d s. retakeButton_click (capture d s)) ds a"

subsection \<open>Image normalisation\<close>

text \<open>
  \<open>compressImage\<close> decodes the file, sizes a canvas, draws the image on it and returns
  \<open>canvas.toDataURL('image/jpeg', 0.8)\<close>.  It is given here on the decoded width and height.
  \<open>Math.round(x)\<close> is \<open>\<lfloor>x + 1/2\<rfloor>\<close>.  The quotient \<open>h * MAX / w\<close> is computed on doubles in the
  source and on rationals here; for the sizes an image can have the double quotient lies on
  the same side of every half-integer as the exact one, so both round to the same integer.

  \<open>toDataURL\<close> encodes the bitmap in the requested type at the requested quality; for a canvas
  without pixels (a width or height of 0) it returns the string \<open>data:,\<close> instead.
\<close>

text \<open>The constant \<open>MAX\<close> of the source (the name is taken in HOL).\<close>

definition MAX_EDGE :: nat where
  "MAX_EDGE = 1024"

definition Math_round :: "rat \<Rightarrow> int" where
  "Math_round x = \<lfloor>x + 1 / 2\<rfloor>"

record canvas =
  canvas_width :: nat
  canvas_height :: nat

datatype data_url = EmptyDataUrl | EncodedImage string nat nat rat

definition toDataURL :: "canvas \<Rightarrow> string \<Rightarrow> rat \<Rightarrow> data_url" where
  "toDataURL c mime quality =
     (if canvas_width c = 0 \<or> canvas_height c = 0 then EmptyDataUrl
      else EncodedImage mime (canvas_width c) (canvas_height c) quality)"

definition compress_canvas :: "nat \<Rightarrow> nat \<Rightarrow> canvas" where
  "compress_canvas w h =
     (if w > h \<and> w > MAX_EDGE
      then \<lparr>canvas_width = MAX_EDGE,
            canvas_height = nat (Math_round (of_nat (h * MAX_EDGE) / of_nat w))\<rparr>
      else if h > MAX_EDGE
      then \<lparr>canvas_width = nat (Math_round (of_nat (w * MAX_EDGE) / of_nat h)),
            canvas_height = MAX_EDGE\<rparr>
      else \<lparr>canvas_width = w, canvas_height = h\<rparr>)"

definition compressImage :: "nat \<Rightarrow> nat \<Rightarrow> data_url" where
  "compressImage w h = toDataURL (compress_canvas w h) ''image/jpeg'' (8 / 10)"

section \<open>The camera variant of the front end\<close>

text \<open>
  The second script captures two video frames in a row, without a review step in between: the
  capture button pushes the frame and advances \<open>step\<close>; after the second frame the preview with
  the retake and submit buttons is shown.  The frame is drawn on a canvas of the video's size
  and encoded with \<open>toDataURL('image/jpeg', 0.8)\<close>; the handler is given the size of the video
  at the click (0 by 0 while the video has no data; otherwise the size of a camera frame, far
  below the limits a platform puts on a canvas).
\<close>

record camera_app =
  step_count :: nat
  frames :: "data_url list"
  streaming :: bool
  scanHidden :: bool
  previewHidden :: bool

definition frame_canvas :: "nat \<Rightarrow> nat \<Rightarrow> canvas" where
  "frame_canvas videoWidth videoHeight =
     \<lparr>canvas_width = videoWidth, canvas_height = videoHeight\<rparr>"

definition frame_encoding :: "nat \<Rightarrow> nat \<Rightarrow> data_url" where
  "frame_encoding videoWidth videoHeight =
     toDataURL (frame_canvas videoWidth videoHeight) ''image/jpeg'' (8 / 10)"

definition captureBtn_click :: "nat \<Rightarrow> nat \<Rightarrow> camera_app \<Rightarrow> camera_app" where
  "captureBtn_click videoWidth videoHeight c =
     (if \<not> streaming c then c
      else
        let c1 = c\<lparr>frames := frames c @ [frame_encoding videoWidth videoHeight],
                  step_count := step_count c + 1\<rparr>
        in if step_count c1 \<ge> 2 then c1\<lparr>scanHidden := True, previewHidden := False\<rparr> else c1)"

text \<open>
  The retake button restarts the camera; \<open>currentStream\<close> is set when \<open>getUserMedia\<close> resolves
  (\<open>camera_ok\<close>) and is never reset to \<open>null\<close>.
\<close>

definition retakeBtn_click :: "bool \<Rightarrow> camera_app \<Rightarrow> camera_app" where
  "retakeBtn_click camera_ok c =
     c\<lparr>frames := [], step_count := 0, previewHidden := True, scanHidden := False,
       streaming := (streaming c \<or> camera_ok)\<rparr>"

text \<open>The camera script at the preview: the camera runs and two frames are captured.\<close>

definition camera_start :: camera_app where
  "camera_start =
     \<lparr>step_count = 0, frames = [], streaming = True, scanHidden = False, previewHidden = True\<rparr>"

definition camera_preview :: camera_app where
  "camera_preview = captureBtn_click 1920 1080 (captureBtn_click 1920 1080 camera_start)"

section \<open>JavaScript values, as the two JSON consumers see them\<close>

text \<open>
  The lookup handler and the result view both work on values that come out of \<open>JSON.parse\<close>.
  A value is \<open>null\<close>, a boolean, a number, a string, an array or an object; \<open>undefined\<close> is what
  reading a missing property gives.  A number is the value of the double (a rational, an
  infinity or NaN).  An object is the list of its own properties, each key once (where a list
  repeats a key, the first entry counts).

  A string of the source is a sequence of UTF-16 code units and may hold a surrogate that has
  no partner (\<open>JSON.parse\<close> produces one from an escape such as \<open>\ud800\<close>).  Strings are held
  here as bytes: UTF-8, with an unpaired surrogate written as the three bytes that UTF-8 would
  give its code point (\<open>ED\<close>, then \<open>A0\<close> to \<open>BF\<close>, then \<open>80\<close> to \<open>BF\<close>).  A surrogate pair is the
  four bytes of its character, so a surrogate written in three bytes is always unpaired.
  Every concatenation of the source that is modelled puts an ASCII character between two
  strings, so no pair can form at a seam.

  What the platform supplies and the repository does not define is a parameter: \<open>JSON.parse\<close>
  (\<open>None\<close> for a \<open>SyntaxError\<close>), the decimal form of a number, the numeric value of a
  string, whether a global \<open>fetch\<close> exists, and the HTTP transport.
\<close>

datatype jsnum = NaN | Finite rat | PosInfinity | NegInfinity

datatype jsval =
  JUndefined | JNull | JBool bool | JNum jsnum | JStr string
  | JArr "jsval list" | JObj "(string \<times> jsval) list"

datatype js_error = TypeError | URIError | SyntaxError | FetchRejected

datatype http_outcome = NoResponse | HttpResponse nat string

record platform =
  JSON_parse :: "string \<Rightarrow> jsval option"
  Number_toString :: "jsnum \<Rightarrow> string"
  StringToNumber :: "string \<Rightarrow> jsnum"
  has_fetch :: bool
  http_get :: "string \<Rightarrow> http_outcome"

text \<open>
  Truthiness, \<open>a || b\<close>, and reading a property.  \<open>read_prop\<close> is the read on a value that is not
  \<open>null\<close> or \<open>undefined\<close> (own properties of an object, \<open>length\<close> of an array or a string);
  \<open>get\<close> adds the \<open>TypeError\<close> of a read on \<open>null\<close> or \<open>undefined\<close>.  \<open>index0\<close> is \<open>x[0]\<close>; the
  source only evaluates it behind a truthiness test of \<open>x\<close>.  On a string it is the first code
  unit: the first character, or the high surrogate of a first character that takes two units.
\<close>

fun truthy :: "jsval \<Rightarrow> bool" where
  "truthy JUndefined = False"
| "truthy JNull = False"
| "truthy (JBool b) = b"
| "truthy (JNum NaN) = False"
| "truthy (JNum (Finite r)) = (r \<noteq> 0)"
| "truthy (JNum PosInfinity) = True"
| "truthy (JNum NegInfinity) = True"
| "truthy (JStr s) = (s \<noteq> [])"
| "truthy (JArr xs) = True"
| "truthy (JObj kvs) = True"

definition js_or :: "jsval \<Rightarrow> jsval \<Rightarrow> jsval" where
  "js_or a b = (if truthy a then a else b)"

definition own :: "(string \<times> jsval) list \<Rightarrow> string \<Rightarrow> jsval" where
  "own kvs k = (case map_of kvs k of None \<Rightarrow> JUndefined | Some v \<Rightarrow> v)"

definition byte :: "char \<Rightarrow> nat" where
  "byte c = of_char c"

definition is_continuation :: "char \<Rightarrow> bool" where
  "is_continuation c = (128 \<le> byte c \<and> byte c < 192)"

text \<open>Code units: one per character, two for a character of four bytes.\<close>

definition utf16_length :: "string \<Rightarrow> nat" where
  "utf16_length s =
     length (filter (\<lambda>c. \<not> is_continuation c) s) + length (filter (\<lambda>c. 240 \<le> byte c) s)"

text \<open>
  The high surrogate of the character written in the four bytes \<open>b0 b1 b2 b3\<close>, in its three
  bytes.
\<close>

definition high_surrogate :: "nat \<Rightarrow> nat \<Rightarrow> nat \<Rightarrow> nat \<Rightarrow> string" where
  "high_surrogate b0 b1 b2 b3 =
     (let cp = (b0 mod 8) * 262144 + (b1 mod 64) * 4096 + (b2 mod 64) * 64 + b3 mod 64;
          hi = 55296 + (cp - 65536) div 1024
      in [char_of (224 + hi div 4096), char_of (128 + (hi div 64) mod 64),
          char_of (128 + hi mod 64)])"

definition first_unit :: "string \<Rightarrow> string" where
  "first_unit s =
     (case s of
        [] \<Rightarrow> []
      | c # cs \<Rightarrow>
          if 240 \<le> byte c
          then (case cs of
                  b1 # b2 # b3 # _ \<Rightarrow> high_surrogate (byte c) (byte b1) (byte b2) (byte b3)
                | _ \<Rightarrow> c # takeWhile is_continuation cs)
          else c # takeWhile is_continuation cs)"

fun read_prop :: "jsval \<Rightarrow> string \<Rightarrow> jsval" where
  "read_prop (JObj kvs) k = own kvs k"
| "read_prop (JArr xs) k = (if k = ''length'' then JNum (Finite (of_nat (length xs))) else JUndefined)"
| "read_prop (JStr s) k = (if k = ''length'' then JNum (Finite (of_nat (utf16_length s))) else JUndefined)"
| "read_prop v k = JUndefined"

definition nullish :: "jsval \<Rightarrow> bool" where
  "nullish v = (v = JUndefined \<or> v = JNull)"

definition get :: "jsval \<Rightarrow> string \<Rightarrow> js_error + jsval" where
  "get v k = (if nullish v then Inl TypeError else Inr (read_prop v k))"

fun index0 :: "jsval \<Rightarrow> jsval" where
  "index0 (JArr xs) = (case xs of [] \<Rightarrow> JUndefined | x # _ \<Rightarrow> x)"
| "index0 (JStr s) = (if s = [] then JUndefined else JStr (first_unit s))"
| "index0 (JObj kvs) = own kvs ''0''"
| "index0 v = JUndefined"

text \<open>
  \<open>ToString\<close>.  An array is joined with commas, \<open>null\<close> and \<open>undefined\<close> elements giving the
  empty string.  A parsed object has no callable property, so an object with a key \<open>toString\<close>
  cannot be converted (\<open>TypeError\<close>); any other object is \<open>[object Object]\<close>.  \<open>ToNumber\<close> of an
  array or object goes through the same conversion.
\<close>

fun to_string :: "platform \<Rightarrow> jsval \<Rightarrow> js_error + string"
  and join_comma :: "platform \<Rightarrow> jsval list \<Rightarrow> js_error + string"
  and element_string :: "platform \<Rightarrow> jsval \<Rightarrow> js_error + string"
where
  "to_string P JUndefined = Inr ''undefined''"
| "to_string P JNull = Inr ''null''"
| "to_string P (JBool b) = Inr (if b then ''true'' else ''false'')"
| "to_string P (JNum n) = Inr (Number_toString P n)"
| "to_string P (JStr s) = Inr s"
| "to_string P (JArr xs) = join_comma P xs"
| "to_string P (JObj kvs) =
     (if ''toString'' \<in> fst ` set kvs then Inl TypeError else Inr ''[object Object]'')"
| "join_comma P [] = Inr []"
| "join_comma P [x] = element_string P x"
| "join_comma P (x # y # ys) =
     (case element_string P x of
        Inl e \<Rightarrow> Inl e
      | Inr s \<Rightarrow> (case join_comma P (y # ys) of
                   Inl e \<Rightarrow> Inl e
                 | Inr t \<Rightarrow> Inr (s @ '','' @ t)))"
| "element_string P x = (if nullish x then Inr [] else to_string P x)"

definition to_number :: "platform \<Rightarrow> jsval \<Rightarrow> js_error + jsnum" where
  "to_number P v =
     (case v of
        JUndefined \<Rightarrow> Inr NaN
      | JNull \<Rightarrow> Inr (Finite 0)
      | JBool b \<Rightarrow> Inr (Finite (if b then 1 else 0))
      | JNum n \<Rightarrow> Inr n
      | JStr s \<Rightarrow> Inr (StringToNumber P s)
      | _ \<Rightarrow> (case to_string P v of Inl e \<Rightarrow> Inl e | Inr s \<Rightarrow> Inr (StringToNumber P s)))"

fun num_less :: "jsnum \<Rightarrow> rat \<Rightarrow> bool" where
  "num_less NaN q = False"
| "num_less (Finite r) q = (r < q)"
| "num_less PosInfinity q = False"
| "num_less NegInfinity q = True"

fun num_greater :: "jsnum \<Rightarrow> rat \<Rightarrow> bool" where
  "num_greater NaN q = False"
| "num_greater (Finite r) q = (q < r)"
| "num_greater PosInfinity q = True"
| "num_greater NegInfinity q = False"

definition js_less :: "platform \<Rightarrow> jsval \<Rightarrow> rat \<Rightarrow> js_error + bool" where
  "js_less P v q = (case to_number P v of Inl e \<Rightarrow> Inl e | Inr n \<Rightarrow> Inr (num_less n q))"

definition js_greater :: "platform \<Rightarrow> jsval \<Rightarrow> rat \<Rightarrow> js_error + bool" where
  "js_greater P v q = (case to_number P v of Inl e \<Rightarrow> Inl e | Inr n \<Rightarrow> Inr (num_greater n q))"

text \<open>
  \<open>encodeURIComponent\<close>: the argument is converted to a string; an unpaired surrogate in it
  raises \<open>URIError\<close>; otherwise every byte of its UTF-8 form that is not an unreserved ASCII
  character is escaped as \<open>%XX\<close>.
\<close>

definition uri_unreserved :: "char \<Rightarrow> bool" where
  "uri_unreserved c \<longleftrightarrow>
     c \<in> set ''ABCDEFGHIJKLMNOPQRSTUVWXYZabcdefghijklmnopqrstuvwxyz0123456789-_.!~*'()''"

definition hex_digit :: "nat \<Rightarrow> char" where
  "hex_digit n = ''0123456789ABCDEF'' ! (n mod 16)"

definition percent_escape :: "char \<Rightarrow> string" where
  "percent_escape c =
     (if uri_unreserved c then [c]
      else [CHR ''%'', hex_digit (byte c div 16), hex_digit (byte c mod 16)])"

definition percent_encode :: "string \<Rightarrow> string" where
  "percent_encode s = concat (map percent_escape s)"

fun has_unpaired_surrogate :: "string \<Rightarrow> bool" where
  "has_unpaired_surrogate [] = False"
| "has_unpaired_surrogate [c] = False"
| "has_unpaired_surrogate (c # d # cs) =
     ((byte c = 237 \<and> 160 \<le> byte d) \<or> has_unpaired_surrogate (d # cs))"

definition encodeURIComponent :: "platform \<Rightarrow> jsval \<Rightarrow> js_error + string" where
  "encodeURIComponent P v =
     (case to_string P v of
        Inl e \<Rightarrow> Inl e
      | Inr s \<Rightarrow> if has_unpaired_surrogate s then Inl URIError else Inr (percent_encode s))"

section \<open>The lookup endpoint\<close>

text \<open>
  \<open>doFetch\<close> hands the URL to \<open>fetch\<close> when there is one and to \<open>https.get\<close> otherwise: one
  request either way, and it is \<open>doFetch\<close> that makes it.  The promise is rejected when the
  transport fails, and resolves to a status and a \<open>json()\<close> method.  With \<open>fetch\<close> that method
  rejects on a body that is not JSON; the fallback returns the empty object instead.  The
  result is the settled promise together with the requests made.
\<close>

record fetch_response =
  resp_status :: nat
  resp_json :: "js_error + jsval"

definition doFetch :: "platform \<Rightarrow> string \<Rightarrow> (js_error + fetch_response) \<times> string list" where
  "doFetch P url =
     ((case http_get P url of
         NoResponse \<Rightarrow> Inl FetchRejected
       | HttpResponse st body \<Rightarrow>
           Inr \<lparr>resp_status = st,
                resp_json =
                  (case JSON_parse P body of
                     Some v \<Rightarrow> Inr v
                   | None \<Rightarrow> if has_fetch P then Inl SyntaxError else Inr (JObj []))\<rparr>),
      [url])"

record drug =
  drug_brand_name :: jsval
  drug_generic_name :: jsval
  drug_ndc :: jsval
  drug_route :: jsval
  drug_dosage_form :: jsval
  drug_active_ingredients :: jsval
  drug_indications :: jsval
  drug_dosage :: jsval
  drug_warnings :: jsval
  drug_adverse_reactions :: jsval
  drug_information_for_patients :: jsval

definition first_or_undefined :: "jsval \<Rightarrow> jsval" where
  "first_or_undefined x = (if truthy x then index0 x else JUndefined)"

definition mapOpenFdaResult :: "jsval \<Rightarrow> drug option" where
  "mapOpenFdaResult result =
     (if \<not> truthy result then None
      else
        let openfda = js_or (read_prop result ''openfda'') (JObj [])
        in Some
          \<lparr>drug_brand_name = first_or_undefined (read_prop openfda ''brand_name''),
           drug_generic_name = first_or_undefined (read_prop openfda ''generic_name''),
           drug_ndc = first_or_undefined (read_prop openfda ''product_ndc''),
           drug_route = first_or_undefined (read_prop openfda ''route''),
           drug_dosage_form = first_or_undefined (read_prop openfda ''dosage_form''),
           drug_active_ingredients =
             js_or (read_prop result ''active_ingredient'') (read_prop result ''active_ingredients''),
           drug_indications =
             js_or (js_or (read_prop result ''indications_and_usage'')
                          (read_prop result ''indications'')) JUndefined,
           drug_dosage = js_or (read_prop result ''dosage_and_administration'') JUndefined,
           drug_warnings =
             js_or (js_or (read_prop result ''warnings_and_cautions'')
                          (read_prop result ''warnings'')) JUndefined,
           drug_adverse_reactions = js_or (read_prop result ''adverse_reactions'') JUndefined,
           drug_information_for_patients =
             js_or (read_prop result ''information_for_patients'') JUndefined\<rparr>)"

text \<open>
  The handler reads the body, answers 405 and 400 itself, and otherwise looks the drug up.
  A run of the handler is its outcome (the response written, or the exception it ends with),
  the requests that \<open>doFetch\<close> made and the errors passed to \<open>console.error\<close>.  The response body
  is kept as the value given to \<open>JSON.stringify\<close>.
\<close>

record request =
  req_method :: string
  req_body :: string

record source_ref =
  source_name :: string
  source_url :: string

datatype payload =
  ErrorPayload string | NotFoundPayload | OkPayload drug "source_ref list"

record response =
  statusCode :: nat
  contentType :: string
  payload :: payload

record run =
  outcome :: "js_error + response"
  fetched :: "string list"
  logged :: "js_error list"

text \<open>
  The query, by precedence: a product code of the identity, else the digits of the barcode
  when there are 10, 11 or 12 of them, else an exact-match search on the label endpoint.  The
  digits are taken before the first test, so a barcode that is not a string fails there.
  The product code goes through \<open>encodeURIComponent\<close>; the names of the label search are put
  into the URL as they are.  The identity is \<open>data.identity || {}\<close>, which is never \<open>null\<close> or
  \<open>undefined\<close>, so its properties are read without a \<open>TypeError\<close>.
\<close>

definition digits_of :: "string \<Rightarrow> string" where
  "digits_of s = filter (\<lambda>c. c \<in> set ''0123456789'') s"

definition digitsOnly_of :: "jsval \<Rightarrow> js_error + string" where
  "digitsOnly_of barcode =
     (case barcode of
        JStr s \<Rightarrow> Inr (digits_of s)
      | _ \<Rightarrow> Inl TypeError)"

definition ndc_url :: "string \<Rightarrow> string" where
  "ndc_url code = ''https://api.fda.gov/drug/ndc.json?search=product_ndc:'' @ code @ ''&limit=1''"

definition label_url :: "string \<Rightarrow> string" where
  "label_url search = ''https://api.fda.gov/drug/label.json?search='' @ search @ ''&limit=1''"

definition exact_part :: "string \<Rightarrow> string \<Rightarrow> string" where
  "exact_part name v = ''openfda.'' @ name @ ''.exact:'' @ [CHR 0x22] @ v @ [CHR 0x22]"

fun join_with :: "string \<Rightarrow> string list \<Rightarrow> string" where
  "join_with sep [] = []"
| "join_with sep [x] = x"
| "join_with sep (x # y # ys) = x @ sep @ join_with sep (y # ys)"

definition push_part ::
  "platform \<Rightarrow> jsval \<Rightarrow> string \<Rightarrow> js_error + string list \<Rightarrow> js_error + string list" where
  "push_part P identity name acc =
     (case acc of
        Inl e \<Rightarrow> Inl e
      | Inr parts \<Rightarrow>
          if truthy (read_prop identity name)
          then (case to_string P (read_prop identity name) of
                  Inl e \<Rightarrow> Inl e
                | Inr v \<Rightarrow> Inr (parts @ [exact_part name v]))
          else Inr parts)"

definition build_query :: "platform \<Rightarrow> jsval \<Rightarrow> jsval \<Rightarrow> js_error + string option" where
  "build_query P identity barcode =
     (case digitsOnly_of barcode of
        Inl e \<Rightarrow> Inl e
      | Inr digitsOnly \<Rightarrow>
          if truthy (js_or (read_prop identity ''ndc'') (read_prop identity ''product_ndc''))
          then
            (case encodeURIComponent P
                    (js_or (read_prop identity ''ndc'') (read_prop identity ''product_ndc'')) of
               Inl e \<Rightarrow> Inl e
             | Inr code \<Rightarrow> Inr (Some (ndc_url code)))
          else if digitsOnly \<noteq> [] \<and>
                  (length digitsOnly = 10 \<or> length digitsOnly = 11 \<or> length digitsOnly = 12)
          then
            (case encodeURIComponent P (JStr digitsOnly) of
               Inl e \<Rightarrow> Inl e
             | Inr code \<Rightarrow> Inr (Some (ndc_url code)))
          else if truthy (js_or (read_prop identity ''brand_name'')
                                (read_prop identity ''generic_name''))
          then
            (case push_part P identity ''dosage_form''
                    (push_part P identity ''generic_name''
                       (push_part P identity ''brand_name'' (Inr []))) of
               Inl e \<Rightarrow> Inl e
             | Inr parts \<Rightarrow> Inr (Some (label_url (join_with ''+AND+'' parts))))
          else Inr None)"

text \<open>
  The \<open>try\<close> block around the remote call: whatever is thrown inside is logged and dropped.
  The result is the drug (if any), the sources, the errors logged and the requests made.
\<close>

definition fetch_drug ::
  "platform \<Rightarrow> string \<Rightarrow> drug option \<times> source_ref list \<times> js_error list \<times> string list" where
  "fetch_drug P queryUrl =
     (case doFetch P queryUrl of
        (Inl e, calls) \<Rightarrow> (None, [], [e], calls)
      | (Inr resp, calls) \<Rightarrow>
          if resp_status resp = 200
          then
            (case resp_json resp of
               Inl e \<Rightarrow> (None, [], [e], calls)
             | Inr json \<Rightarrow>
                 (case get json ''results'' of
                    Inl e \<Rightarrow> (None, [], [e], calls)
                  | Inr r \<Rightarrow>
                      let results = js_or r (JArr [])
                      in if \<not> truthy results then (None, [], [], calls)
                         else
                           (case js_greater P (read_prop results ''length'') 0 of
                              Inl e \<Rightarrow> (None, [], [e], calls)
                            | Inr nonempty \<Rightarrow>
                                if nonempty
                                then (mapOpenFdaResult (index0 results),
                                      [\<lparr>source_name = ''openFDA'', source_url = queryUrl\<rparr>],
                                      [], calls)
                                else (None, [], [], calls))))
          else (None, [], [], calls))"

definition json_response :: "nat \<Rightarrow> payload \<Rightarrow> response" where
  "json_response code p = \<lparr>statusCode = code, contentType = ''application/json'', payload = p\<rparr>"

definition lookup :: "platform \<Rightarrow> jsval \<Rightarrow> jsval \<Rightarrow> run" where
  "lookup P identity barcode =
     (case build_query P identity barcode of
        Inl e \<Rightarrow> \<lparr>outcome = Inl e, fetched = [], logged = []\<rparr>
      | Inr None \<Rightarrow>
          \<lparr>outcome = Inr (json_response 200 NotFoundPayload), fetched = [], logged = []\<rparr>
      | Inr (Some queryUrl) \<Rightarrow>
          (case fetch_drug P queryUrl of
             (None, sources, errs, calls) \<Rightarrow>
               \<lparr>outcome = Inr (json_response 200 NotFoundPayload),
                fetched = calls, logged = errs\<rparr>
           | (Some d, sources, errs, calls) \<Rightarrow>
               \<lparr>outcome = Inr (json_response 200 (OkPayload d sources)),
                fetched = calls, logged = errs\<rparr>))"

definition handler :: "platform \<Rightarrow> request \<Rightarrow> run" where
  "handler P req =
     (if req_method req \<noteq> ''POST''
      then \<lparr>outcome = Inr (json_response 405 (ErrorPayload ''Method not allowed'')),
            fetched = [], logged = []\<rparr>
      else
        case JSON_parse P (if req_body req = [] then ''{}'' else req_body req) of
          None \<Rightarrow>
            \<lparr>outcome = Inr (json_response 400 (ErrorPayload ''Invalid JSON'')),
             fetched = [], logged = []\<rparr>
        | Some data \<Rightarrow>
            (case get data ''identity'' of
               Inl e \<Rightarrow> \<lparr>outcome = Inl e, fetched = [], logged = []\<rparr>
             | Inr i \<Rightarrow>
                 lookup P (js_or i (JObj [])) (js_or (read_prop data ''barcode'') (JStr []))))"

text \<open>
  The route of the server script: an exception of the handler becomes a 500, sent with
  \<open>res.status(500).json(...)\<close>, which sets the content type with its charset (no response has
  been written when the handler throws).
\<close>

definition internal_server_error :: response where
  "internal_server_error =
     \<lparr>statusCode = 500, contentType = ''application/json; charset=utf-8'',
      payload = ErrorPayload ''Internal Server Error''\<rparr>"

definition identify_route :: "platform \<Rightarrow> request \<Rightarrow> response" where
  "identify_route P req =
     (case outcome (handler P req) of
        Inl e \<Rightarrow> internal_server_error
      | Inr r \<Rightarrow> r)"

section \<open>The result view of the front end\<close>

text \<open>
  \<open>displayResult\<close> chooses between the not-identified view and the structured view and builds
  the markup.  The markup is kept as its parts: the strings that are interpolated, in the
  order of the template, and the addresses of the fallback links (none when the block of
  links is the empty string).
  \<open>processImages\<close> calls \<open>displayResult\<close> inside its \<open>try\<close>; an exception ends in the error box.
\<close>

definition and_then :: "'e + 'a \<Rightarrow> ('a \<Rightarrow> 'e + 'b) \<Rightarrow> 'e + 'b" where
  "and_then m f = (case m of Inl e \<Rightarrow> Inl e | Inr x \<Rightarrow> f x)"

fun to_strings :: "platform \<Rightarrow> jsval list \<Rightarrow> js_error + string list" where
  "to_strings P [] = Inr []"
| "to_strings P (x # xs) =
     and_then (to_string P x) (\<lambda>s. and_then (to_strings P xs) (\<lambda>ss. Inr (s # ss)))"

definition default_query :: string where
  "default_query = ''thu'' @ [CHR 0xE1, CHR 0xBB, CHR 0x91] @ ''c''"

definition buildFallbackLinks :: "platform \<Rightarrow> jsval \<Rightarrow> js_error + string list" where
  "buildFallbackLinks P fallback =
     (if \<not> truthy fallback then Inr []
      else and_then
             (encodeURIComponent P (js_or (read_prop fallback ''query'') (JStr default_query)))
             (\<lambda>query.
                Inr [''https://nhathuoclongchau.com.vn/tim-kiem/'' @ query,
                     ''https://www.google.com/search?q=site:vinmec.com+'' @ query,
                     ''https://www.pharmacity.vn/tim-kiem/'' @ query]))"

datatype dosage_html = DosageList "string list" | DosageText string

record structured =
  shown_name :: string
  shown_active_ingredient :: string
  shown_manufacturer :: string
  shown_usage :: string
  shown_dosage :: dosage_html
  shown_contraindications :: string
  shown_warnings :: "string list option"
  shown_links :: "string list"

datatype view = NotIdentified "string list" | Structured structured

definition render_not_identified :: "platform \<Rightarrow> jsval \<Rightarrow> js_error + view" where
  "render_not_identified P data =
     (let search_fallback =
            (if nullish data then JUndefined else read_prop data ''search_fallback'')
      in if truthy search_fallback
         then and_then (buildFallbackLinks P search_fallback) (\<lambda>links. Inr (NotIdentified links))
         else Inr (NotIdentified []))"

definition render_dosage :: "platform \<Rightarrow> jsval \<Rightarrow> js_error + dosage_html" where
  "render_dosage P dosage =
     (case dosage of
        JArr ds \<Rightarrow> and_then (to_strings P ds) (\<lambda>items. Inr (DosageList items))
      | _ \<Rightarrow> and_then (to_string P dosage) (\<lambda>t. Inr (DosageText t)))"

definition render_warnings :: "platform \<Rightarrow> jsval \<Rightarrow> js_error + string list option" where
  "render_warnings P warnings =
     (if \<not> truthy warnings then Inr None
      else and_then (js_greater P (read_prop warnings ''length'') 0)
             (\<lambda>nonempty.
                if \<not> nonempty then Inr None
                else case warnings of
                       JArr ws \<Rightarrow> and_then (to_strings P ws) (\<lambda>items. Inr (Some items))
                     | _ \<Rightarrow> Inl TypeError))"

definition render_structured :: "platform \<Rightarrow> jsval \<Rightarrow> js_error + structured" where
  "render_structured P data =
     (let identity = read_prop data ''identity'';
          details = read_prop data ''details'';
          warnings = read_prop data ''warnings'';
          search_fallback = read_prop data ''search_fallback''
      in
      and_then (to_string P (read_prop identity ''name'')) (\<lambda>name.
      and_then (to_string P (read_prop identity ''active_ingredient'')) (\<lambda>active.
      and_then (to_string P (read_prop identity ''manufacturer'')) (\<lambda>manufacturer.
      and_then (and_then (get details ''usage'') (to_string P)) (\<lambda>usage.
      and_then (render_dosage P (read_prop details ''dosage'')) (\<lambda>dosage.
      and_then (to_string P (read_prop details ''contraindications'')) (\<lambda>contra.
      and_then (render_warnings P warnings) (\<lambda>warn.
      and_then (buildFallbackLinks P search_fallback) (\<lambda>links.
        Inr \<lparr>shown_name = name, shown_active_ingredient = active,
             shown_manufacturer = manufacturer, shown_usage = usage,
             shown_dosage = dosage, shown_contraindications = contra,
             shown_warnings = warn, shown_links = links\<rparr>)))))))))"

text \<open>
  The threshold is the literal \<open>0.4\<close> of the source, that is, the double nearest to four tenths:
  \<open>3602879701896397 / 2^53\<close>, a little above \<open>2/5\<close>.
\<close>

definition CONFIDENCE_THRESHOLD :: rat where
  "CONFIDENCE_THRESHOLD = 3602879701896397 / 9007199254740992"

definition displayResult :: "platform \<Rightarrow> jsval \<Rightarrow> js_error + view" where
  "displayResult P data =
     (if \<not> truthy data then render_not_identified P data
      else if \<not> truthy (read_prop data ''identity'') then render_not_identified P data
      else
        and_then (js_less P (read_prop (read_prop data ''identity'') ''confidence'')
                    CONFIDENCE_THRESHOLD)
          (\<lambda>low.
             if low then render_not_identified P data
             else and_then (render_structured P data) (\<lambda>s. Inr (Structured s))))"

datatype results_html = ShowsView view | ShowsError

definition processImages_display :: "platform \<Rightarrow> jsval \<Rightarrow> results_html" where
  "processImages_display P data =
     (case displayResult P data of Inl e \<Rightarrow> ShowsError | Inr v \<Rightarrow> ShowsView v)"

section \<open>Values for closed examples\<close>

text \<open>
  A platform for closed examples.  Its parser knows the handful of texts the examples use, each
  with the value \<open>JSON.parse\<close> gives for it; its transport answers three product-code queries
  and one label query, and fails on every other URL.
\<close>

definition dq :: string where
  "dq = [CHR 0x22]"

definition text_acme :: string where
  "text_acme =
     ''{'' @ dq @ ''results'' @ dq @ '':[{'' @ dq @ ''openfda'' @ dq @ '':{'' @ dq @
     ''brand_name'' @ dq @ '':['' @ dq @ ''Acme'' @ dq @ '']}}]}''"

definition text_advil :: string where
  "text_advil =
     ''{'' @ dq @ ''results'' @ dq @ '':[{'' @ dq @ ''openfda'' @ dq @ '':{'' @ dq @
     ''brand_name'' @ dq @ '':['' @ dq @ ''Advil'' @ dq @ '']}}]}''"

definition text_no_results :: string where
  "text_no_results = ''{'' @ dq @ ''results'' @ dq @ '':[]}''"

definition text_not_found :: string where
  "text_not_found =
     ''{'' @ dq @ ''error'' @ dq @ '':{'' @ dq @ ''code'' @ dq @ '':'' @ dq @ ''NOT_FOUND'' @ dq @
     ''}}''"

definition text_numeric_barcode :: string where
  "text_numeric_barcode = ''{'' @ dq @ ''barcode'' @ dq @ '':12345678901}''"

definition text_with_ndc :: string where
  "text_with_ndc =
     ''{'' @ dq @ ''identity'' @ dq @ '':{'' @ dq @ ''ndc'' @ dq @ '':'' @ dq @ ''12345-678-90'' @
     dq @ ''},'' @ dq @ ''barcode'' @ dq @ '':'' @ dq @ dq @ ''}''"

text \<open>A product code that is an object with a \<open>toString\<close> entry, and one with a lone surrogate.\<close>

definition text_ndc_object :: string where
  "text_ndc_object =
     ''{'' @ dq @ ''identity'' @ dq @ '':{'' @ dq @ ''ndc'' @ dq @ '':{'' @ dq @ ''toString'' @ dq @
     '':'' @ dq @ ''x'' @ dq @ ''}}}''"

definition text_ndc_surrogate :: string where
  "text_ndc_surrogate =
     ''{'' @ dq @ ''identity'' @ dq @ '':{'' @ dq @ ''ndc'' @ dq @ '':'' @ dq @ [CHR 0x5C] @
     ''ud800'' @ dq @ ''}}''"

definition lone_surrogate :: string where
  "lone_surrogate = [CHR 0xED, CHR 0xA0, CHR 0x80]"

definition JSON_parse_sample :: "string \<Rightarrow> jsval option" where
  "JSON_parse_sample s =
     (if s = ''{}'' then Some (JObj [])
      else if s = ''null'' then Some JNull
      else if s = text_no_results then Some (JObj [(''results'', JArr [])])
      else if s = text_acme
        then Some (JObj [(''results'',
               JArr [JObj [(''openfda'', JObj [(''brand_name'', JArr [JStr ''Acme''])])]])])
      else if s = text_advil
        then Some (JObj [(''results'',
               JArr [JObj [(''openfda'', JObj [(''brand_name'', JArr [JStr ''Advil''])])]])])
      else if s = text_not_found
        then Some (JObj [(''error'', JObj [(''code'', JStr ''NOT_FOUND'')])])
      else if s = text_numeric_barcode
        then Some (JObj [(''barcode'', JNum (Finite 12345678901))])
      else if s = text_with_ndc
        then Some (JObj [(''identity'', JObj [(''ndc'', JStr ''12345-678-90'')]),
                         (''barcode'', JStr [])])
      else if s = text_ndc_object
        then Some (JObj [(''identity'', JObj [(''ndc'', JObj [(''toString'', JStr ''x'')])])])
      else if s = text_ndc_surrogate
        then Some (JObj [(''identity'', JObj [(''ndc'', JStr lone_surrogate)])])
      else None)"

definition http_get_sample :: "string \<Rightarrow> http_outcome" where
  "http_get_sample url =
     (if url = ''https://api.fda.gov/drug/ndc.json?search=product_ndc:12345-678-90&limit=1''
        then HttpResponse 200 text_acme
      else if url = ''https://api.fda.gov/drug/ndc.json?search=product_ndc:01234567890&limit=1''
        then HttpResponse 404 text_not_found
      else if url = ''https://api.fda.gov/drug/ndc.json?search=product_ndc:0123456789&limit=1''
        then HttpResponse 200 text_no_results
      else if url =
          ''https://api.fda.gov/drug/label.json?search=openfda.brand_name.exact:'' @ dq @
          ''Advil'' @ dq @ ''+AND+openfda.dosage_form.exact:'' @ dq @ ''TABLET'' @ dq @
          ''&limit=1''
        then HttpResponse 200 text_advil
      else NoResponse)"

definition sample_platform :: platform where
  "sample_platform =
     \<lparr>JSON_parse = JSON_parse_sample, Number_toString = (\<lambda>n. ''0''),
      StringToNumber = (\<lambda>s. NaN), has_fetch = True, http_get = http_get_sample\<rparr>"

text \<open>Identity objects for closed examples.\<close>

definition identity_code_and_brand :: jsval where
  "identity_code_and_brand =
     JObj [(''ndc'', JStr ''12345-678-90''), (''brand_name'', JStr ''Advil'')]"

definition identity_brand_and_form :: jsval where
  "identity_brand_and_form =
     JObj [(''brand_name'', JStr ''Advil''), (''dosage_form'', JStr ''TABLET'')]"

definition identity_code_object :: jsval where
  "identity_code_object = JObj [(''ndc'', JObj [(''toString'', JStr ''x'')])]"

definition identity_code_surrogate :: jsval where
  "identity_code_surrogate = JObj [(''ndc'', JStr lone_surrogate)]"




definition record_without_query :: jsval where
  "record_without_query =
     JObj [(''identity'', JObj [(''confidence'', JNum (Finite (1 / 8)))]),
           (''search_fallback'', JObj [])]"

definition record_query_surrogate :: jsval where
  "record_query_surrogate =
     JObj [(''identity'', JObj [(''confidence'', JNum (Finite (1 / 8)))]),
           (''search_fallback'', JObj [(''query'', JStr lone_surrogate)])]"

section \<open>Vocabulary of the statements\<close>

text \<open>The two endpoints, told apart by the URL.\<close>

definition is_product_code_query :: "string \<Rightarrow> bool" where
  "is_product_code_query url =
     prefix ''https://api.fda.gov/drug/ndc.json?search=product_ndc:'' url"

definition is_label_query :: "string \<Rightarrow> bool" where
  "is_label_query url = prefix ''https://api.fda.gov/drug/label.json?search='' url"

text \<open>
  A value that \<open>ToString\<close> converts (everything but an object with a \<open>toString\<close> key, or an
  array holding one); a value that \<open>encodeURIComponent\<close> accepts (it converts, and its string
  has no unpaired surrogate).
\<close>

definition stringifiable :: "platform \<Rightarrow> jsval \<Rightarrow> bool" where
  "stringifiable P v = (case to_string P v of Inl e \<Rightarrow> False | Inr s \<Rightarrow> True)"

definition encodable :: "platform \<Rightarrow> jsval \<Rightarrow> bool" where
  "encodable P v =
     (case to_string P v of Inl e \<Rightarrow> False | Inr s \<Rightarrow> \<not> has_unpaired_surrogate s)"

text \<open>A barcode entry that the handler can take the digits of: absent, falsy, or a string.\<close>

definition barcode_usable :: "jsval \<Rightarrow> bool" where
  "barcode_usable v = (case v of JStr s \<Rightarrow> True | _ \<Rightarrow> \<not> truthy v)"

text \<open>
  The identity fields that the chosen query puts into its URL can be put there: the product
  code when there is one; nothing when the barcode supplies the code; each present one of the
  three names when a brand or generic name is present; nothing when no query is chosen.
\<close>

definition query_fields_usable :: "platform \<Rightarrow> jsval \<Rightarrow> string \<Rightarrow> bool" where
  "query_fields_usable P identity digits =
     (if truthy (js_or (read_prop identity ''ndc'') (read_prop identity ''product_ndc''))
      then encodable P (js_or (read_prop identity ''ndc'') (read_prop identity ''product_ndc''))
      else if length digits \<in> {10, 11, 12} then True
      else if truthy (js_or (read_prop identity ''brand_name'')
                            (read_prop identity ''generic_name''))
      then list_all (\<lambda>n. \<not> truthy (read_prop identity n) \<or> stringifiable P (read_prop identity n))
             [''brand_name'', ''generic_name'', ''dosage_form'']
      else True)"

text \<open>
  A parsed request body that the handler can serve: not \<open>null\<close>, with a usable barcode and
  with usable query fields.
\<close>

definition body_usable :: "platform \<Rightarrow> jsval \<Rightarrow> bool" where
  "body_usable P data \<longleftrightarrow>
     \<not> nullish data \<and> barcode_usable (read_prop data ''barcode'') \<and>
     query_fields_usable P (js_or (read_prop data ''identity'') (JObj []))
       (case read_prop data ''barcode'' of JStr s \<Rightarrow> digits_of s | _ \<Rightarrow> [])"

text \<open>A 200 response carrying one of the two documented bodies.\<close>

definition is_lookup_answer :: "response \<Rightarrow> bool" where
  "is_lookup_answer r \<longleftrightarrow>
     statusCode r = 200 \<and> contentType r = ''application/json'' \<and>
     (case payload r of
        ErrorPayload m \<Rightarrow> False
      | NotFoundPayload \<Rightarrow> True
      | OkPayload d srcs \<Rightarrow> True)"

section \<open>Properties\<close>

subsection \<open>Image normalisation\<close>

lemma Math_round_is_round: "Math_round x = round x"
  by (simp add: Math_round_def round_def)

lemma Math_round_nonneg: "0 \<le> x \<Longrightarrow> 0 \<le> Math_round x"
  by (simp add: Math_round_def)

lemma Math_round_near: "\<bar>of_int (Math_round x) - x\<bar> \<le> 1 / 2"
  unfolding Math_round_is_round by (rule of_int_round_abs_le)

lemma Math_round_of_nat: "Math_round (of_nat n) = int n"
  unfolding Math_round_def by (rule floor_unique) simp_all

lemma scaled_short_le:
  assumes "s \<le> l" "0 < l"
  shows "nat (Math_round (of_nat (s * MAX_EDGE) / of_nat l)) \<le> MAX_EDGE"
proof -
  have "(of_nat (s * MAX_EDGE) / of_nat l :: rat) \<le> of_nat MAX_EDGE"
  proof -
    have "(of_nat s :: rat) \<le> of_nat l" using assms by simp
    hence "(of_nat MAX_EDGE :: rat) * of_nat s \<le> of_nat MAX_EDGE * of_nat l"
      by (intro mult_left_mono) simp_all
    thus ?thesis using assms by (simp add: divide_le_eq mult.commute)
  qed
  hence "Math_round (of_nat (s * MAX_EDGE) / of_nat l) \<le> Math_round (of_nat MAX_EDGE)"
    unfolding Math_round_def by (intro floor_mono) simp
  also have "Math_round (of_nat MAX_EDGE) = int MAX_EDGE"
    by (rule Math_round_of_nat)
  finally show ?thesis by simp
qed

lemma scaled_short_zero:
  assumes "0 < l"
  shows "nat (Math_round (of_nat (s * MAX_EDGE) / of_nat l)) = 0 \<longleftrightarrow> 2048 * s < l"
proof -
  let ?x = "of_nat (s * MAX_EDGE) / of_nat l :: rat"
  have half: "y + 1 / 2 < 1 \<longleftrightarrow> y < 1 / 2" for y :: rat by auto
  have "nat (Math_round ?x) = 0 \<longleftrightarrow> Math_round ?x < 1" by auto
  also have "\<dots> \<longleftrightarrow> ?x + 1 / 2 < 1"
    unfolding Math_round_def by (simp only: floor_less_iff of_int_1)
  also have "\<dots> \<longleftrightarrow> ?x < 1 / 2" by (rule half)
  also have "\<dots> \<longleftrightarrow> (of_nat (s * MAX_EDGE) :: rat) * 2 < of_nat l"
    using assms by (simp add: divide_less_eq)
  also have "\<dots> \<longleftrightarrow> (of_nat (2048 * s) :: rat) < of_nat l"
    by (simp add: MAX_EDGE_def mult.commute)
  also have "\<dots> \<longleftrightarrow> 2048 * s < l"
    by (simp only: of_nat_less_iff)
  finally show ?thesis .
qed

lemma compress_canvas_wide:
  assumes "w > h" "w > MAX_EDGE"
  shows "canvas_width (compress_canvas w h) = MAX_EDGE"
    and "canvas_height (compress_canvas w h) =
           nat (Math_round (of_nat (h * MAX_EDGE) / of_nat w))"
  using assms by (simp_all add: compress_canvas_def)

lemma compress_canvas_tall:
  assumes "\<not> (w > h \<and> w > MAX_EDGE)" "h > MAX_EDGE"
  shows "canvas_height (compress_canvas w h) = MAX_EDGE"
    and "canvas_width (compress_canvas w h) =
           nat (Math_round (of_nat (w * MAX_EDGE) / of_nat h))"
  using assms by (auto simp add: compress_canvas_def)

lemma compress_canvas_small:
  assumes "max w h \<le> MAX_EDGE"
  shows "compress_canvas w h = \<lparr>canvas_width = w, canvas_height = h\<rparr>"
  using assms by (auto simp add: compress_canvas_def)

lemma nat_round_near:
  assumes "0 \<le> x"
  shows "\<bar>of_nat (nat (Math_round x)) - x\<bar> \<le> 1 / 2"
proof -
  have "0 \<le> Math_round x" using assms by (rule Math_round_nonneg)
  hence "(of_nat (nat (Math_round x)) :: rat) = of_int (Math_round x)" by simp
  thus ?thesis using Math_round_near [of x] by simp
qed

lemma compress_canvas_scaled:
  assumes over: "MAX_EDGE < max w h"
  shows "max (canvas_width (compress_canvas w h)) (canvas_height (compress_canvas w h)) = 1024 \<and>
      (if h < w
       then canvas_width (compress_canvas w h) = 1024 \<and>
            canvas_height (compress_canvas w h) =
              nat (round (of_nat h * 1024 / of_nat w :: rat))
       else canvas_height (compress_canvas w h) = 1024 \<and>
            canvas_width (compress_canvas w h) =
              nat (round (of_nat w * 1024 / of_nat h :: rat))) \<and>
      \<bar>of_nat (min (canvas_width (compress_canvas w h)) (canvas_height (compress_canvas w h)))
         - of_nat (min w h) * 1024 / of_nat (max w h)\<bar> \<le> (1 / 2 :: rat)"
proof (cases "h < w")
  case True
  with over have wbig: "MAX_EDGE < w" by simp
  let ?s = "nat (Math_round (of_nat (h * MAX_EDGE) / of_nat w))"
  have cw: "canvas_width (compress_canvas w h) = MAX_EDGE"
    and ch: "canvas_height (compress_canvas w h) = ?s"
    using compress_canvas_wide [OF True wbig] by simp_all
  have le: "?s \<le> MAX_EDGE"
    using True wbig by (intro scaled_short_le) simp_all
  have near: "\<bar>of_nat ?s - (of_nat (h * MAX_EDGE) / of_nat w :: rat)\<bar> \<le> 1 / 2"
    by (rule nat_round_near) simp
  show ?thesis
    using True le near
    by (simp add: cw ch MAX_EDGE_def Math_round_is_round min_def max_def)
next
  case False
  with over have hbig: "MAX_EDGE < h" by simp
  from False have nw: "\<not> (h < w \<and> MAX_EDGE < w)" by simp
  let ?s = "nat (Math_round (of_nat (w * MAX_EDGE) / of_nat h))"
  have ch: "canvas_height (compress_canvas w h) = MAX_EDGE"
    and cw: "canvas_width (compress_canvas w h) = ?s"
    using compress_canvas_tall [OF nw hbig] by simp_all
  have le: "?s \<le> MAX_EDGE"
    using False hbig by (intro scaled_short_le) simp_all
  have near: "\<bar>of_nat ?s - (of_nat (w * MAX_EDGE) / of_nat h :: rat)\<bar> \<le> 1 / 2"
    by (rule nat_round_near) simp
  show ?thesis
    using False le near
    by (simp add: cw ch MAX_EDGE_def Math_round_is_round min_def max_def)
qed

lemma compress_canvas_no_pixels:
  "(canvas_width (compress_canvas w h) = 0 \<or> canvas_height (compress_canvas w h) = 0)
     \<longleftrightarrow> (min w h = 0 \<or> 2048 * min w h < max w h)"
proof (cases "MAX_EDGE < max w h")
  case False
  hence small: "max w h \<le> MAX_EDGE" by linarith
  have "\<not> (0 < min w h \<and> 2048 * min w h < max w h)"
    using small by (auto simp add: MAX_EDGE_def min_def max_def)
  thus ?thesis
    unfolding compress_canvas_small [OF small] by (auto simp add: min_def)
next
  case over: True
  show ?thesis
  proof (cases "h < w")
    case True
    with over have wbig: "MAX_EDGE < w" by simp
    hence pos: "0 < w" by simp
    show ?thesis
      using True wbig scaled_short_zero [OF pos, of h]
      by (auto simp add: compress_canvas_wide [OF True wbig] MAX_EDGE_def min_def max_def)
  next
    case False
    with over have hbig: "MAX_EDGE < h" by simp
    hence pos: "0 < h" by simp
    from False have nw: "\<not> (h < w \<and> MAX_EDGE < w)" by simp
    show ?thesis
      using False hbig scaled_short_zero [OF pos, of w]
      by (auto simp add: compress_canvas_tall [OF nw hbig] MAX_EDGE_def min_def max_def)
  qed
qed

text \<open>
  Claim C4, for the file-input front end and for the camera front end.

  \<open>compressImage\<close>, for every decoded image of width \<open>w\<close> and height \<open>h\<close>: when the long edge
  exceeds 1024, the canvas has its long edge at 1024 and its short edge at
  \<open>round (short * 1024 / long)\<close>, which is within one half of the exact proportional value; when
  both edges are within 1024 the canvas has the size of the image.  The canvas is encoded as
  \<open>image/jpeg\<close> at quality 0.8 when it has pixels; it has none exactly when an edge of the
  image is 0 or the long edge is more than 2048 times the short one, and the result is then
  the empty data URL.

  The capture button of the camera front end never rescales: the canvas has the size of the
  video, whatever it is, and is encoded in the same way; that encoding is what the handler
  appends to the captured frames.
\<close>

theorem normalization_scaling_law:
  "(MAX_EDGE < max w h \<longrightarrow>
      max (canvas_width (compress_canvas w h)) (canvas_height (compress_canvas w h)) = 1024 \<and>
      (if h < w
       then canvas_width (compress_canvas w h) = 1024 \<and>
            canvas_height (compress_canvas w h) =
              nat (round (of_nat h * 1024 / of_nat w :: rat))
       else canvas_height (compress_canvas w h) = 1024 \<and>
            canvas_width (compress_canvas w h) =
              nat (round (of_nat w * 1024 / of_nat h :: rat))) \<and>
      \<bar>of_nat (min (canvas_width (compress_canvas w h)) (canvas_height (compress_canvas w h)))
         - of_nat (min w h) * 1024 / of_nat (max w h)\<bar> \<le> (1 / 2 :: rat)) \<and>
   (max w h \<le> MAX_EDGE \<longrightarrow>
      compress_canvas w h = \<lparr>canvas_width = w, canvas_height = h\<rparr>) \<and>
   compressImage w h =
     (if min w h = 0 \<or> 2048 * min w h < max w h then EmptyDataUrl
      else EncodedImage ''image/jpeg'' (canvas_width (compress_canvas w h))
             (canvas_height (compress_canvas w h)) (8 / 10)) \<and>
   frame_canvas w h = \<lparr>canvas_width = w, canvas_height = h\<rparr> \<and>
   frame_encoding w h =
     (if w = 0 \<or> h = 0 then EmptyDataUrl else EncodedImage ''image/jpeg'' w h (8 / 10)) \<and>
   (streaming c \<longrightarrow> frames (captureBtn_click w h c) = frames c @ [frame_encoding w h])"
proof -
  have enc: "compressImage w h =
     (if min w h = 0 \<or> 2048 * min w h < max w h then EmptyDataUrl
      else EncodedImage ''image/jpeg'' (canvas_width (compress_canvas w h))
             (canvas_height (compress_canvas w h)) (8 / 10))"
    by (simp only: compressImage_def toDataURL_def compress_canvas_no_pixels)
  have cam: "frame_encoding w h =
     (if w = 0 \<or> h = 0 then EmptyDataUrl else EncodedImage ''image/jpeg'' w h (8 / 10))"
    by (simp add: frame_encoding_def frame_canvas_def toDataURL_def)
  have push: "streaming c \<longrightarrow> frames (captureBtn_click w h c) = frames c @ [frame_encoding w h]"
    by (simp add: captureBtn_click_def Let_def)
  have fc: "frame_canvas w h = \<lparr>canvas_width = w, canvas_height = h\<rparr>"
    by (simp add: frame_canvas_def)
  show ?thesis
    using compress_canvas_scaled [of w h] compress_canvas_small [of w h] enc cam push fc
    by blast
qed

theorem normalization_scaling_law_witness:
  "MAX_EDGE < max 4000 3000 \<and>
   compressImage 4000 3000 = EncodedImage ''image/jpeg'' 1024 768 (8 / 10) \<and>
   max 800 600 \<le> MAX_EDGE \<and>
   compressImage 800 600 = EncodedImage ''image/jpeg'' 800 600 (8 / 10) \<and>
   streaming camera_start \<and>
   frames (captureBtn_click 640 480 camera_start) = [EncodedImage ''image/jpeg'' 640 480 (8 / 10)]"
proof -
  have r: "nat (round (of_nat 3000 * 1024 / of_nat 4000 :: rat)) = 768"
  proof -
    have "(of_nat 3000 * 1024 / of_nat 4000 :: rat) = of_int 768" by simp
    thus ?thesis by (simp only: round_of_int)
  qed
  have s: "streaming camera_start" "frames camera_start = []"
    by (simp_all add: camera_start_def)
  show ?thesis
    using normalization_scaling_law [of 4000 3000 camera_start]
      normalization_scaling_law [of 800 600 camera_start]
      normalization_scaling_law [of 640 480 camera_start] r s
    by (simp add: MAX_EDGE_def)
qed

text \<open>
  Claim C4 as the specification states it fails in both front ends.  A video frame of
  1920 by 1080 is captured at that size, with its long edge above 1024.  An image of 3000 by 1
  is scaled to a canvas of 1024 by 0, and the result is the empty data URL, not a JPEG.
\<close>

theorem normalization_counterexample:
  "MAX_EDGE < max 1920 1080 \<and>
   streaming camera_start \<and>
   frames (captureBtn_click 1920 1080 camera_start) =
     [EncodedImage ''image/jpeg'' 1920 1080 (8 / 10)] \<and>
   MAX_EDGE < max 3000 1 \<and>
   compress_canvas 3000 1 = \<lparr>canvas_width = 1024, canvas_height = 0\<rparr> \<and>
   compressImage 3000 1 = EmptyDataUrl"
proof -
  have z: "Math_round (of_nat (1 * MAX_EDGE) / of_nat 3000) = 0"
    unfolding Math_round_def by (rule floor_unique) (simp_all add: MAX_EDGE_def)
  have c: "compress_canvas 3000 1 = \<lparr>canvas_width = 1024, canvas_height = 0\<rparr>"
    using z by (simp add: compress_canvas_def MAX_EDGE_def)
  show ?thesis
    unfolding compressImage_def c
    by (simp add: MAX_EDGE_def camera_start_def captureBtn_click_def Let_def
        frame_encoding_def frame_canvas_def toDataURL_def)
qed

subsection \<open>The capture wizard\<close>

lemma showCurrentStep_frame:
  "capturedImages (showCurrentStep a) = capturedImages a"
  "imageCounter (showCurrentStep a) = imageCounter a"
  "currentDraft (showCurrentStep a) = currentDraft a"
  "isProcessingFile (showCurrentStep a) = isProcessingFile a"
  "suspended (showCurrentStep a) = suspended a"
  "db (showCurrentStep a) = db a"
  by (simp_all add: showCurrentStep_def Let_def)

lemma showCurrentStep_Idle:
  assumes "imageCounter a < 2" "currentDraft a = None" "\<not> isProcessingFile a" "suspended a = []"
  shows "is_Idle (imageCounter a) (showCurrentStep a)"
  using assms by (simp add: is_Idle_def showCurrentStep_def Let_def)

lemma retake_frame:
  "capturedImages (retakeButton_click a) = capturedImages a"
  "imageCounter (retakeButton_click a) = imageCounter a"
  "db (retakeButton_click a) = db a"
  "currentDraft (retakeButton_click a) = None"
  "suspended (retakeButton_click a) = suspended a"
  by (simp_all add: retakeButton_click_def showCurrentStep_frame)

lemma retake_Idle:
  assumes "is_Reviewing i d a"
  shows "is_Idle i (retakeButton_click a)"
proof -
  from assms have "imageCounter a = i" "i < 2" "\<not> isProcessingFile a" "suspended a = []"
    by (simp_all add: is_Reviewing_def)
  hence "is_Idle (imageCounter (a\<lparr>currentDraft := None\<rparr>))
           (showCurrentStep (a\<lparr>currentDraft := None\<rparr>))"
    by (intro showCurrentStep_Idle) simp_all
  thus ?thesis using \<open>imageCounter a = i\<close> by (simp add: retakeButton_click_def)
qed

lemma capture_Reviewing:
  assumes "is_Idle i a" "d \<noteq> []"
  shows "is_Reviewing i d (capture d a)"
  using assms
  by (simp add: is_Idle_def is_Reviewing_def capture_def fileInput_change_def
      compressImage_resolved_def showReview_def)

lemma capture_frame:
  "capturedImages (capture d a) = capturedImages a"
  "imageCounter (capture d a) = imageCounter a"
  "db (capture d a) = db a"
  by (simp_all add: capture_def fileInput_change_def compressImage_resolved_def showReview_def)

lemma capture_retake_Idle:
  assumes "is_Idle i a"
  shows "is_Idle i (retakeButton_click (capture d a))"
  using assms
  by (simp add: is_Idle_def capture_def fileInput_change_def compressImage_resolved_def
      showReview_def retakeButton_click_def showCurrentStep_def Let_def)

lemma retake_rounds_keep:
  assumes "is_Idle i a"
  shows "is_Idle i (retake_rounds ds a) \<and>
         capturedImages (retake_rounds ds a) = capturedImages a \<and>
         imageCounter (retake_rounds ds a) = imageCounter a \<and>
         db (retake_rounds ds a) = db a"
  using assms
proof (induction ds arbitrary: a)
  case Nil
  then show ?case by (simp add: retake_rounds_def)
next
  case (Cons d ds)
  let ?b = "retakeButton_click (capture d a)"
  have idle: "is_Idle i ?b" using Cons.prems by (rule capture_retake_Idle)
  have step: "retake_rounds (d # ds) a = retake_rounds ds ?b"
    by (simp add: retake_rounds_def)
  from Cons.IH [OF idle] show ?case
    unfolding step by (simp add: retake_frame capture_frame)
qed

lemma confirmButton_click_Reviewing:
  assumes "is_Reviewing i d a"
  shows "confirmButton_click a =
     a\<lparr>capturedImages := capturedImages a @ [d], imageCounter := i + 1,
       suspended := [AwaitSaveSession]\<rparr>"
  using assms by (simp add: is_Reviewing_def confirmButton_click_def Let_def)

lemma confirm_Reviewing:
  assumes "is_Reviewing i d a"
  shows "confirm ok a =
     confirm_resume ok
       (a\<lparr>capturedImages := capturedImages a @ [d], imageCounter := i + 1, suspended := []\<rparr>)"
  unfolding confirm_def confirmButton_click_Reviewing [OF assms]
  by (simp add: openDB_settled_def)

lemma confirm_images:
  assumes "is_Reviewing i d a"
  shows "capturedImages (confirm ok a) = capturedImages a @ [d]"
    and "imageCounter (confirm ok a) = i + 1"
    and "currentDraft (confirm ok a) = None"
    and "settings (db (confirm ok a)) = settings (db a)"
  unfolding confirm_Reviewing [OF assms]
  by (simp_all add: confirm_resume_def Let_def saveSession_def processImages_begin_def
      showCurrentStep_def)

lemma confirm_next_screen:
  assumes "is_Reviewing i d a"
  shows "(i + 1 < 2 \<longrightarrow> is_Idle (i + 1) (confirm ok a)) \<and>
         (i + 1 = 2 \<longrightarrow> is_Finalizing (confirm ok a))"
  unfolding confirm_Reviewing [OF assms]
  using assms
  by (auto simp add: is_Reviewing_def is_Idle_def is_Finalizing_def confirm_resume_def
      Let_def saveSession_def processImages_begin_def showCurrentStep_def)

lemma loaded_page_Idle: "is_Idle 0 loaded_page"
  by (simp add: loaded_page_def reload_def openDB_settled_def load_resume_def is_Idle_def
      showCurrentStep_def page0_def Let_def)

lemma loaded_page_facts:
  "capturedImages loaded_page = []" "imageCounter loaded_page = 0"
  "session (db loaded_page) SESSION_ID = None" "consoleErrors loaded_page = []"
  by (simp_all add: loaded_page_def reload_def openDB_settled_def load_resume_def
      showCurrentStep_def page0_def Let_def)

lemma reviewing_first_is_Reviewing:
  "is_Reviewing 0 ''data:image/jpeg;base64,AA'' reviewing_first"
  unfolding reviewing_first_def by (rule capture_Reviewing [OF loaded_page_Idle]) simp

lemma reviewing_first_facts:
  "capturedImages reviewing_first = []"
  "session (db reviewing_first) SESSION_ID = None"
  "consoleErrors reviewing_first = []"
  "currentDraft reviewing_first = Some ''data:image/jpeg;base64,AA''"
  "imageCounter reviewing_first = 0"
  "suspended reviewing_first = []"
  by (simp_all add: reviewing_first_def capture_def fileInput_change_def
      compressImage_resolved_def showReview_def loaded_page_def reload_def openDB_settled_def
      load_resume_def showCurrentStep_def page0_def Let_def)

text \<open>
  Claim C2, for the file-input front end and for the camera front end.

  In the file-input front end the retake handler leaves the confirmed images, the step
  counter, the stores and the suspended handlers as they are and clears the draft; from
  \<open>Reviewing i d\<close> it leads to \<open>Idle i\<close>.  After any number of capture-and-retake rounds from
  \<open>Idle i\<close> the confirmed images are still the same, and one more capture followed by a confirm
  appends exactly that one draft, when no other event is handled between the confirm click
  and the settling of its \<open>openDB\<close>.

  In the camera front end there is no draft: the retake handler drops every captured frame
  and puts the step back to 0.
\<close>

theorem retake_discards_only_draft:
  "capturedImages (retakeButton_click a) = capturedImages a \<and>
   imageCounter (retakeButton_click a) = imageCounter a \<and>
   db (retakeButton_click a) = db a \<and>
   suspended (retakeButton_click a) = suspended a \<and>
   currentDraft (retakeButton_click a) = None \<and>
   (is_Reviewing i d a \<longrightarrow> is_Idle i (retakeButton_click a)) \<and>
   (is_Idle i a \<and> d' \<noteq> [] \<longrightarrow>
      is_Idle i (retake_rounds ds a) \<and>
      capturedImages (retake_rounds ds a) = capturedImages a \<and>
      imageCounter (retake_rounds ds a) = imageCounter a \<and>
      is_Reviewing i d'
        (compressImage_resolved d' (fileInput_change True (retake_rounds ds a))) \<and>
      capturedImages
        (openDB_settled ok
           (confirmButton_click
              (compressImage_resolved d' (fileInput_change True (retake_rounds ds a)))))
        = capturedImages a @ [d'] \<and>
      length (capturedImages
        (openDB_settled ok
           (confirmButton_click
              (compressImage_resolved d' (fileInput_change True (retake_rounds ds a))))))
        = length (capturedImages a) + 1) \<and>
   frames (retakeBtn_click camera_ok c) = [] \<and>
   step_count (retakeBtn_click camera_ok c) = 0"
proof -
  have rounds: "is_Reviewing i d' (capture d' (retake_rounds ds a)) \<and>
      capturedImages (confirm ok (capture d' (retake_rounds ds a))) = capturedImages a @ [d']"
    if idle: "is_Idle i a" and ne: "d' \<noteq> []"
  proof -
    let ?b = "retake_rounds ds a"
    let ?c = "capture d' ?b"
    from retake_rounds_keep [OF idle, of ds]
    have b: "is_Idle i ?b" "capturedImages ?b = capturedImages a" by simp_all
    have rev: "is_Reviewing i d' ?c" using b(1) ne by (rule capture_Reviewing)
    from confirm_images(1) [OF rev, of ok]
    have "capturedImages (confirm ok ?c) = capturedImages ?c @ [d']" .
    with rev b(2) show ?thesis by (simp add: capture_frame)
  qed
  have cam: "frames (retakeBtn_click camera_ok c) = [] \<and>
      step_count (retakeBtn_click camera_ok c) = 0"
    by (simp add: retakeBtn_click_def)
  show ?thesis
    using retake_frame [of a] retake_Idle [of i d a] retake_rounds_keep [of i a ds] rounds cam
    unfolding capture_def confirm_def
    by auto
qed

theorem retake_discards_only_draft_witness:
  "is_Reviewing 0 ''data:image/jpeg;base64,AA'' reviewing_first \<and>
   is_Idle 0 (retakeButton_click reviewing_first) \<and>
   is_Idle 0 loaded_page \<and>
   capturedImages
     (openDB_settled True
        (confirmButton_click
           (compressImage_resolved ''c''
              (fileInput_change True (retake_rounds [''a'', ''b''] loaded_page))))) = [''c'']"
  using retake_discards_only_draft
      [of reviewing_first 0 "''data:image/jpeg;base64,AA''" "''c''" "[''a'', ''b'']" True]
    retake_discards_only_draft
      [of loaded_page 0 "''x''" "''c''" "[''a'', ''b'']" True]
    reviewing_first_is_Reviewing loaded_page_Idle loaded_page_facts(1)
  by simp

text \<open>
  Claim C2 as the specification states it fails in the camera front end: at the preview, with
  two frames captured and the step at 2, the retake handler leaves no frame and step 0.
\<close>

theorem retake_counterexample:
  "frames camera_preview =
     [EncodedImage ''image/jpeg'' 1920 1080 (8 / 10),
      EncodedImage ''image/jpeg'' 1920 1080 (8 / 10)] \<and>
   step_count camera_preview = 2 \<and>
   frames (retakeBtn_click True camera_preview) = [] \<and>
   step_count (retakeBtn_click True camera_preview) = 0"
  by (simp add: camera_preview_def camera_start_def captureBtn_click_def retakeBtn_click_def
      frame_encoding_def frame_canvas_def toDataURL_def Let_def)

lemma clearSession_frame:
  "settings (db (clearSession ok a)) = settings (db a)"
  "session (db (clearSession ok a)) =
     (if ok then (session (db a))(SESSION_ID := None) else session (db a))"
  "imageCounter (clearSession ok a) = imageCounter a"
  by (simp_all add: clearSession_def)

lemma openDB_settled_settings: "settings (db (openDB_settled ok a)) = settings (db a)"
proof (cases "suspended a")
  case Nil
  thus ?thesis by (simp add: openDB_settled_def)
next
  case (Cons k ks)
  thus ?thesis
    by (cases k)
       (simp_all add: openDB_settled_def confirm_resume_def reset_resume_def reload_def
        load_resume_def saveSession_def clearSession_def processImages_begin_def
        showCurrentStep_def Let_def)
qed

lemma scanButton_click_frame:
  "db (scanButton_click a) = db a"
  "imageCounter (scanButton_click a) = imageCounter a"
  "capturedImages (scanButton_click a) = capturedImages a"
  by (simp_all add: scanButton_click_def scanButton_onclick_def scanButton_listener_def)

lemma scanButton_click_ended:
  assumes "is_Ended a"
  shows "scanButton_click a = a\<lparr>suspended := [AwaitClearSession, AwaitClearThenReload]\<rparr>"
  using assms
  by (simp add: is_Ended_def scanButton_click_def scanButton_onclick_def
      scanButton_listener_def)

lemma reset_first_settle:
  assumes "is_Ended a"
  shows "openDB_settled ok_a (scanButton_click a) =
     showCurrentStep
       ((clearSession ok_a (a\<lparr>suspended := [AwaitClearThenReload]\<rparr>))
          \<lparr>imageCounter := 0, capturedImages := [], resultsContent := ResultsEmpty\<rparr>)"
  unfolding scanButton_click_ended [OF assms]
  by (simp add: openDB_settled_def reset_resume_def)

lemma reset_ended:
  assumes "is_Ended a"
  shows "reset ok_a ok_b a =
     page0\<lparr>db := (db a)\<lparr>session :=
              (if ok_a \<or> ok_b then (session (db a))(SESSION_ID := None) else session (db a))\<rparr>,
           suspended := [AwaitGetKeyOnLoad]\<rparr>"
  unfolding reset_def reset_first_settle [OF assms]
  by (simp add: openDB_settled_def showCurrentStep_def clearSession_def reload_def Let_def)

lemma reload_then_load_Idle: "is_Idle 0 (openDB_settled True (reload a))"
  by (simp add: reload_def openDB_settled_def load_resume_def is_Idle_def showCurrentStep_def
      page0_def Let_def)

text \<open>
  Claim C9, for the two resets of the file-input front end.

  The reset by the scan button, after a run has ended and with no other event handled until
  its two handlers have gone on: once the first \<open>clearSession\<close> has settled, the counter is 0
  and the image list is empty; once the second has settled, the page is reloaded, with the
  variables at their initial values, and it shows step 0 when its load handler can read the
  key.  In the store, the session record is deleted and nothing else is changed when at least
  one of the two calls of \<open>openDB\<close> succeeds; nothing at all is changed when both fail.

  The reset by the retry button of the error box reloads the page, which then shows step 0 in
  the same way; it leaves the whole store as it is, the session record included.

  The \<open>settings\<close> store, which holds the API key, is unchanged by a click on the scan button, by
  a click on the retry button, and by every continuation that waits for \<open>openDB\<close>, in every
  state.
\<close>

theorem reset_clears_session_only:
  "settings (db (scanButton_click a)) = settings (db a) \<and>
   settings (db (retryButton_click a)) = settings (db a) \<and>
   settings (db (openDB_settled ok a)) = settings (db a) \<and>
   settings (db (openDB_settled ok_b (openDB_settled ok_a (scanButton_click a))))
     = settings (db a) \<and>
   (is_Ended a \<longrightarrow>
      imageCounter (openDB_settled ok_a (scanButton_click a)) = 0 \<and>
      capturedImages (openDB_settled ok_a (scanButton_click a)) = [] \<and>
      imageCounter (openDB_settled ok_b (openDB_settled ok_a (scanButton_click a))) = 0 \<and>
      capturedImages (openDB_settled ok_b (openDB_settled ok_a (scanButton_click a))) = [] \<and>
      session (db (openDB_settled ok_b (openDB_settled ok_a (scanButton_click a)))) =
        (if ok_a \<or> ok_b then (session (db a))(SESSION_ID := None) else session (db a)) \<and>
      is_Idle 0
        (openDB_settled True (openDB_settled ok_b (openDB_settled ok_a (scanButton_click a))))) \<and>
   (resultsContent a = ErrorBoxShown \<longrightarrow>
      imageCounter (retryButton_click a) = 0 \<and>
      capturedImages (retryButton_click a) = [] \<and>
      db (retryButton_click a) = db a \<and>
      is_Idle 0 (openDB_settled True (retryButton_click a)))"
proof -
  have s1: "settings (db (scanButton_click a)) = settings (db a)"
    by (simp add: scanButton_click_frame)
  have s2: "settings (db (retryButton_click a)) = settings (db a)"
    by (simp add: retryButton_click_def reload_def)
  have s3: "settings (db (openDB_settled ok a)) = settings (db a)"
    by (rule openDB_settled_settings)
  have s4: "settings (db (openDB_settled ok_b (openDB_settled ok_a (scanButton_click a))))
     = settings (db a)"
    by (simp add: openDB_settled_settings scanButton_click_frame)
  have ended: "imageCounter (openDB_settled ok_a (scanButton_click a)) = 0 \<and>
      capturedImages (openDB_settled ok_a (scanButton_click a)) = [] \<and>
      imageCounter (openDB_settled ok_b (openDB_settled ok_a (scanButton_click a))) = 0 \<and>
      capturedImages (openDB_settled ok_b (openDB_settled ok_a (scanButton_click a))) = [] \<and>
      session (db (openDB_settled ok_b (openDB_settled ok_a (scanButton_click a)))) =
        (if ok_a \<or> ok_b then (session (db a))(SESSION_ID := None) else session (db a)) \<and>
      is_Idle 0
        (openDB_settled True (openDB_settled ok_b (openDB_settled ok_a (scanButton_click a))))"
    if e: "is_Ended a"
  proof -
    have first: "imageCounter (openDB_settled ok_a (scanButton_click a)) = 0 \<and>
        capturedImages (openDB_settled ok_a (scanButton_click a)) = []"
      unfolding reset_first_settle [OF e] by (simp add: showCurrentStep_frame)
    have r: "openDB_settled ok_b (openDB_settled ok_a (scanButton_click a)) =
       page0\<lparr>db := (db a)\<lparr>session :=
              (if ok_a \<or> ok_b then (session (db a))(SESSION_ID := None) else session (db a))\<rparr>,
           suspended := [AwaitGetKeyOnLoad]\<rparr>"
      using reset_ended [OF e, of ok_a ok_b] by (simp add: reset_def)
    have idle: "is_Idle 0
        (openDB_settled True (openDB_settled ok_b (openDB_settled ok_a (scanButton_click a))))"
      unfolding r
      by (simp add: openDB_settled_def load_resume_def is_Idle_def showCurrentStep_def
          page0_def Let_def)
    have second: "imageCounter (openDB_settled ok_b (openDB_settled ok_a (scanButton_click a))) = 0 \<and>
      capturedImages (openDB_settled ok_b (openDB_settled ok_a (scanButton_click a))) = [] \<and>
      session (db (openDB_settled ok_b (openDB_settled ok_a (scanButton_click a)))) =
        (if ok_a \<or> ok_b then (session (db a))(SESSION_ID := None) else session (db a))"
      unfolding r by (simp add: page0_def)
    show ?thesis using first second idle by blast
  qed
  have retry: "imageCounter (retryButton_click a) = 0 \<and>
      capturedImages (retryButton_click a) = [] \<and>
      db (retryButton_click a) = db a \<and>
      is_Idle 0 (openDB_settled True (retryButton_click a))"
    if "resultsContent a = ErrorBoxShown"
    using that reload_then_load_Idle [of a]
    by (simp add: retryButton_click_def reload_def page0_def)
  show ?thesis using s1 s2 s3 s4 ended retry by blast
qed

lemma ended_run_facts:
  "is_Ended finished_run"
  "is_Ended failed_run"
  "resultsContent failed_run = ErrorBoxShown"
  "session (db finished_run) SESSION_ID =
     Some \<lparr>saved_imageCounter = 2,
           saved_capturedImages = [''data:image/jpeg;base64,AA'', ''b'']\<rparr>"
  "session (db failed_run) SESSION_ID =
     Some \<lparr>saved_imageCounter = 2,
           saved_capturedImages = [''data:image/jpeg;base64,AA'', ''b'']\<rparr>"
  "settings (db finished_run) geminiKey = Some ''secret''"
  "settings (db failed_run) geminiKey = Some ''secret''"
  "capturedImages finished_run = [''data:image/jpeg;base64,AA'', ''b'']"
  by (simp_all add: is_Ended_def finished_run_def failed_run_def analysing_run_def
      processImages_end_def confirm_def confirmButton_click_def openDB_settled_def
      confirm_resume_def capture_def fileInput_change_def compressImage_resolved_def
      showReview_def saveSession_def saveKey_def reviewing_first_def loaded_page_def
      reload_def load_resume_def showCurrentStep_def processImages_begin_def page0_def
      Let_def)

theorem reset_clears_session_only_witness:
  "is_Ended finished_run \<and>
   session (db finished_run) SESSION_ID =
     Some \<lparr>saved_imageCounter = 2,
           saved_capturedImages = [''data:image/jpeg;base64,AA'', ''b'']\<rparr> \<and>
   settings (db finished_run) geminiKey = Some ''secret'' \<and>
   session (db (openDB_settled True (openDB_settled True (scanButton_click finished_run))))
     SESSION_ID = None \<and>
   settings (db (openDB_settled True (openDB_settled True (scanButton_click finished_run))))
     geminiKey = Some ''secret'' \<and>
   imageCounter (openDB_settled True (openDB_settled True (scanButton_click finished_run))) = 0 \<and>
   capturedImages (openDB_settled True (openDB_settled True (scanButton_click finished_run)))
     = [] \<and>
   resultsContent failed_run = ErrorBoxShown \<and>
   db (retryButton_click failed_run) = db failed_run \<and>
   imageCounter (retryButton_click failed_run) = 0"
  using reset_clears_session_only
      [where a = finished_run and ok = True and ok_a = True and ok_b = True]
    reset_clears_session_only
      [where a = failed_run and ok = True and ok_a = True and ok_b = True]
    ended_run_facts
  by simp

text \<open>
  Claim C9 as the specification states it fails for both resets.  After a failed run the retry
  button leads back to step 0 with the session record still in the store.  After a finished
  run the reset by the scan button, when the database opens for neither of its handlers,
  leads back to step 0 with the record still in the store.
\<close>

theorem reset_counterexample:
  "resultsContent failed_run = ErrorBoxShown \<and>
   session (db failed_run) SESSION_ID =
     Some \<lparr>saved_imageCounter = 2,
           saved_capturedImages = [''data:image/jpeg;base64,AA'', ''b'']\<rparr> \<and>
   session (db (retryButton_click failed_run)) SESSION_ID =
     Some \<lparr>saved_imageCounter = 2,
           saved_capturedImages = [''data:image/jpeg;base64,AA'', ''b'']\<rparr> \<and>
   is_Idle 0 (openDB_settled True (retryButton_click failed_run)) \<and>
   session (db (openDB_settled True (retryButton_click failed_run))) SESSION_ID =
     Some \<lparr>saved_imageCounter = 2,
           saved_capturedImages = [''data:image/jpeg;base64,AA'', ''b'']\<rparr> \<and>
   is_Ended finished_run \<and>
   session (db (openDB_settled False (openDB_settled False (scanButton_click finished_run))))
     SESSION_ID =
     Some \<lparr>saved_imageCounter = 2,
           saved_capturedImages = [''data:image/jpeg;base64,AA'', ''b'']\<rparr> \<and>
   imageCounter (openDB_settled False (openDB_settled False (scanButton_click finished_run)))
     = 0"
proof -
  have retry: "retryButton_click failed_run = reload failed_run"
    by (simp add: retryButton_click_def ended_run_facts(3))
  have after: "db (openDB_settled True (reload failed_run)) = db failed_run"
    by (simp add: reload_def openDB_settled_def load_resume_def showCurrentStep_def
        page0_def Let_def)
  have r: "reset False False finished_run =
     page0\<lparr>db := (db finished_run)\<lparr>session := session (db finished_run)\<rparr>,
           suspended := [AwaitGetKeyOnLoad]\<rparr>"
    using reset_ended [OF ended_run_facts(1), of False False] by simp
  have r': "openDB_settled False (openDB_settled False (scanButton_click finished_run)) =
     page0\<lparr>db := (db finished_run)\<lparr>session := session (db finished_run)\<rparr>,
           suspended := [AwaitGetKeyOnLoad]\<rparr>"
    using r by (simp add: reset_def)
  have c3: "session (db (retryButton_click failed_run)) SESSION_ID =
     Some \<lparr>saved_imageCounter = 2,
           saved_capturedImages = [''data:image/jpeg;base64,AA'', ''b'']\<rparr>"
    unfolding retry by (simp add: reload_def ended_run_facts(5))
  have c4: "is_Idle 0 (openDB_settled True (retryButton_click failed_run))"
    unfolding retry by (rule reload_then_load_Idle)
  have c5: "session (db (openDB_settled True (retryButton_click failed_run))) SESSION_ID =
     Some \<lparr>saved_imageCounter = 2,
           saved_capturedImages = [''data:image/jpeg;base64,AA'', ''b'']\<rparr>"
    unfolding retry by (simp add: after ended_run_facts(5))
  have c7: "session (db (openDB_settled False (openDB_settled False
       (scanButton_click finished_run)))) SESSION_ID =
     Some \<lparr>saved_imageCounter = 2,
           saved_capturedImages = [''data:image/jpeg;base64,AA'', ''b'']\<rparr>"
    unfolding r' by (simp add: ended_run_facts(4))
  have c8: "imageCounter (openDB_settled False (openDB_settled False
       (scanButton_click finished_run))) = 0"
    unfolding r' by (simp add: page0_def)
  show ?thesis
    using ended_run_facts(1,3,5) c3 c4 c5 c7 c8 by simp
qed

lemma confirm_trace_last:
  assumes "is_Reviewing i d a"
  shows "last (confirm_trace ok a) = openDB_settled ok (confirmButton_click a)"
    and "confirm_trace ok a ! 2 = confirmButton_click a"
  using assms
  by (simp_all add: is_Reviewing_def confirm_trace_def confirmButton_click_def
      openDB_settled_def confirm_resume_def saveSession_def Let_def)

lemma confirm_trace_observe:
  assumes "is_Reviewing i d a"
  shows "map observe (confirm_trace ok a) =
     [(i, capturedImages a, Some d, session (db a) SESSION_ID, consoleErrors a),
      (i, capturedImages a @ [d], Some d, session (db a) SESSION_ID, consoleErrors a),
      (i + 1, capturedImages a @ [d], Some d, session (db a) SESSION_ID, consoleErrors a),
      (i + 1, capturedImages a @ [d], Some d,
         (if ok then Some \<lparr>saved_imageCounter = i + 1,
                           saved_capturedImages = capturedImages a @ [d]\<rparr>
          else session (db a) SESSION_ID),
         (if ok then consoleErrors a else consoleErrors a @ [SessionSaveFailed])),
      (i + 1, capturedImages a @ [d], None,
         (if ok then Some \<lparr>saved_imageCounter = i + 1,
                           saved_capturedImages = capturedImages a @ [d]\<rparr>
          else session (db a) SESSION_ID),
         (if ok then consoleErrors a else consoleErrors a @ [SessionSaveFailed])),
      (i + 1, capturedImages a @ [d], None,
         (if ok then Some \<lparr>saved_imageCounter = i + 1,
                           saved_capturedImages = capturedImages a @ [d]\<rparr>
          else session (db a) SESSION_ID),
         (if ok then consoleErrors a else consoleErrors a @ [SessionSaveFailed]))]"
  using assms
  by (simp add: is_Reviewing_def confirm_trace_def observe_def Let_def saveSession_def
      processImages_begin_def showCurrentStep_def)

text \<open>
  Claim C1, as the handler has it, for a confirm during which no other event is handled
  between the click and the settling of \<open>openDB\<close>.  From \<open>Reviewing i d\<close> the handler appends the
  draft, then advances the counter, and is suspended there, with the draft still in place and
  the store as it was.  When \<open>openDB\<close> has settled it goes on: if the database opened, it
  writes the record (counter \<open>i + 1\<close>, images with the draft) to the session store; if it did
  not, the store is left as it was and the failure is reported on the console.  Then the
  draft is cleared.  The handler ends in \<open>Idle (i + 1)\<close> when \<open>i + 1 < 2\<close> and in \<open>Finalizing\<close>
  when \<open>i + 1 = 2\<close>, and never touches the \<open>settings\<close> store.
\<close>

theorem confirm_appends_advances_then_persists:
  "is_Reviewing i d a \<longrightarrow>
     map observe (confirm_trace ok a) =
       [(i, capturedImages a, Some d, session (db a) SESSION_ID, consoleErrors a),
        (i, capturedImages a @ [d], Some d, session (db a) SESSION_ID, consoleErrors a),
        (i + 1, capturedImages a @ [d], Some d, session (db a) SESSION_ID, consoleErrors a),
        (i + 1, capturedImages a @ [d], Some d,
           (if ok then Some \<lparr>saved_imageCounter = i + 1,
                             saved_capturedImages = capturedImages a @ [d]\<rparr>
            else session (db a) SESSION_ID),
           (if ok then consoleErrors a else consoleErrors a @ [SessionSaveFailed])),
        (i + 1, capturedImages a @ [d], None,
           (if ok then Some \<lparr>saved_imageCounter = i + 1,
                             saved_capturedImages = capturedImages a @ [d]\<rparr>
            else session (db a) SESSION_ID),
           (if ok then consoleErrors a else consoleErrors a @ [SessionSaveFailed])),
        (i + 1, capturedImages a @ [d], None,
           (if ok then Some \<lparr>saved_imageCounter = i + 1,
                             saved_capturedImages = capturedImages a @ [d]\<rparr>
            else session (db a) SESSION_ID),
           (if ok then consoleErrors a else consoleErrors a @ [SessionSaveFailed]))] \<and>
     confirm_trace ok a ! 2 = confirmButton_click a \<and>
     suspended (confirmButton_click a) = [AwaitSaveSession] \<and>
     last (confirm_trace ok a) = openDB_settled ok (confirmButton_click a) \<and>
     settings (db (openDB_settled ok (confirmButton_click a))) = settings (db a) \<and>
     (i + 1 < 2 \<longrightarrow> is_Idle (i + 1) (openDB_settled ok (confirmButton_click a))) \<and>
     (i + 1 = 2 \<longrightarrow> is_Finalizing (openDB_settled ok (confirmButton_click a)))"
proof
  assume rev: "is_Reviewing i d a"
  have susp: "suspended (confirmButton_click a) = [AwaitSaveSession]"
    unfolding confirmButton_click_Reviewing [OF rev] by simp
  show "map observe (confirm_trace ok a) =
       [(i, capturedImages a, Some d, session (db a) SESSION_ID, consoleErrors a),
        (i, capturedImages a @ [d], Some d, session (db a) SESSION_ID, consoleErrors a),
        (i + 1, capturedImages a @ [d], Some d, session (db a) SESSION_ID, consoleErrors a),
        (i + 1, capturedImages a @ [d], Some d,
           (if ok then Some \<lparr>saved_imageCounter = i + 1,
                             saved_capturedImages = capturedImages a @ [d]\<rparr>
            else session (db a) SESSION_ID),
           (if ok then consoleErrors a else consoleErrors a @ [SessionSaveFailed])),
        (i + 1, capturedImages a @ [d], None,
           (if ok then Some \<lparr>saved_imageCounter = i + 1,
                             saved_capturedImages = capturedImages a @ [d]\<rparr>
            else session (db a) SESSION_ID),
           (if ok then consoleErrors a else consoleErrors a @ [SessionSaveFailed])),
        (i + 1, capturedImages a @ [d], None,
           (if ok then Some \<lparr>saved_imageCounter = i + 1,
                             saved_capturedImages = capturedImages a @ [d]\<rparr>
            else session (db a) SESSION_ID),
           (if ok then consoleErrors a else consoleErrors a @ [SessionSaveFailed]))] \<and>
     confirm_trace ok a ! 2 = confirmButton_click a \<and>
     suspended (confirmButton_click a) = [AwaitSaveSession] \<and>
     last (confirm_trace ok a) = openDB_settled ok (confirmButton_click a) \<and>
     settings (db (openDB_settled ok (confirmButton_click a))) = settings (db a) \<and>
     (i + 1 < 2 \<longrightarrow> is_Idle (i + 1) (openDB_settled ok (confirmButton_click a))) \<and>
     (i + 1 = 2 \<longrightarrow> is_Finalizing (openDB_settled ok (confirmButton_click a)))"
    using confirm_trace_observe [OF rev, of ok] confirm_trace_last [OF rev, of ok] susp
      confirm_images(4) [OF rev, of ok] confirm_next_screen [OF rev, of ok]
    unfolding confirm_def by blast
qed

theorem confirm_appends_advances_then_persists_witness:
  "is_Reviewing 0 ''data:image/jpeg;base64,AA'' reviewing_first \<and>
   map observe (confirm_trace True reviewing_first) =
     [(0, [], Some ''data:image/jpeg;base64,AA'', None, []),
      (0, [''data:image/jpeg;base64,AA''], Some ''data:image/jpeg;base64,AA'', None, []),
      (1, [''data:image/jpeg;base64,AA''], Some ''data:image/jpeg;base64,AA'', None, []),
      (1, [''data:image/jpeg;base64,AA''], Some ''data:image/jpeg;base64,AA'',
         Some \<lparr>saved_imageCounter = 1,
               saved_capturedImages = [''data:image/jpeg;base64,AA'']\<rparr>, []),
      (1, [''data:image/jpeg;base64,AA''], None,
         Some \<lparr>saved_imageCounter = 1,
               saved_capturedImages = [''data:image/jpeg;base64,AA'']\<rparr>, []),
      (1, [''data:image/jpeg;base64,AA''], None,
         Some \<lparr>saved_imageCounter = 1,
               saved_capturedImages = [''data:image/jpeg;base64,AA'']\<rparr>, [])] \<and>
   map observe (drop 3 (confirm_trace False reviewing_first)) =
     [(1, [''data:image/jpeg;base64,AA''], Some ''data:image/jpeg;base64,AA'', None,
         [SessionSaveFailed]),
      (1, [''data:image/jpeg;base64,AA''], None, None, [SessionSaveFailed]),
      (1, [''data:image/jpeg;base64,AA''], None, None, [SessionSaveFailed])] \<and>
   is_Idle 1 (openDB_settled True (confirmButton_click reviewing_first))"
  using confirm_appends_advances_then_persists
      [of 0 "''data:image/jpeg;base64,AA''" reviewing_first True]
    confirm_appends_advances_then_persists
      [of 0 "''data:image/jpeg;base64,AA''" reviewing_first False]
    reviewing_first_is_Reviewing reviewing_first_facts
  by (simp add: drop_map [symmetric])

text \<open>
  Claim C1 as the specification states it: the order asked for (store first, counter second)
  does not occur.  On the first draft, no point of the handler has the new record stored with
  the counter still at 0; after the increment the store is still empty.
\<close>

theorem persist_before_advance_counterexample:
  "is_Reviewing 0 ''data:image/jpeg;base64,AA'' reviewing_first \<and>
   \<not> spec_persisted_before_advance True reviewing_first \<and>
   map observe (take 3 (confirm_trace True reviewing_first)) =
     [(0, [], Some ''data:image/jpeg;base64,AA'', None, []),
      (0, [''data:image/jpeg;base64,AA''], Some ''data:image/jpeg;base64,AA'', None, []),
      (1, [''data:image/jpeg;base64,AA''], Some ''data:image/jpeg;base64,AA'', None, [])]"
  using reviewing_first_is_Reviewing reviewing_first_facts
  by (simp add: spec_persisted_before_advance_def confirm_trace_def observe_def
      saveSession_def processImages_begin_def showCurrentStep_def Let_def)

subsection \<open>The lookup endpoint\<close>

lemma percent_escape_digit:
  "c \<in> set ''0123456789'' \<Longrightarrow> percent_escape c = [c]"
  by (auto simp add: percent_escape_def uri_unreserved_def)

lemma concat_escape_digits:
  "(\<And>c. c \<in> set xs \<Longrightarrow> c \<in> set ''0123456789'') \<Longrightarrow> concat (map percent_escape xs) = xs"
proof (induction xs)
  case Nil
  show ?case by simp
next
  case (Cons x xs)
  have x: "percent_escape x = [x]"
    by (rule percent_escape_digit) (rule Cons.prems, simp)
  have "concat (map percent_escape xs) = xs"
    by (rule Cons.IH) (rule Cons.prems, simp)
  with x show ?case by simp
qed

lemma digit_byte: "c \<in> set ''0123456789'' \<Longrightarrow> byte c \<noteq> 237"
  by (auto simp add: byte_def)

lemma digits_no_surrogate:
  "(\<And>c. c \<in> set xs \<Longrightarrow> c \<in> set ''0123456789'') \<Longrightarrow> \<not> has_unpaired_surrogate xs"
proof (induction xs rule: has_unpaired_surrogate.induct)
  case 1
  show ?case by simp
next
  case (2 c)
  show ?case by simp
next
  case (3 c d cs)
  have c: "byte c \<noteq> 237" by (rule digit_byte) (rule "3.prems", simp)
  have "\<not> has_unpaired_surrogate (d # cs)"
    by (rule "3.IH") (rule "3.prems", simp)
  with c show ?case by simp
qed

lemma digits_of_digits: "c \<in> set (digits_of s) \<Longrightarrow> c \<in> set ''0123456789''"
  unfolding digits_of_def by (simp only: set_filter mem_Collect_eq)

lemma percent_encode_digits: "percent_encode (digits_of s) = digits_of s"
  unfolding percent_encode_def by (rule concat_escape_digits) (rule digits_of_digits)

lemma encodeURIComponent_digits:
  "encodeURIComponent P (JStr (digits_of s)) = Inr (digits_of s)"
proof -
  have "\<not> has_unpaired_surrogate (digits_of s)"
    by (rule digits_no_surrogate) (rule digits_of_digits)
  thus ?thesis by (simp add: encodeURIComponent_def percent_encode_digits)
qed

lemma ndc_url_is_product_code: "is_product_code_query (ndc_url c)"
  by (simp add: is_product_code_query_def ndc_url_def)

lemma label_url_not_product_code: "\<not> is_product_code_query (label_url s)"
  by (simp add: is_product_code_query_def label_url_def)

lemma doFetch_calls: "snd (doFetch P u) = [u]"
  by (simp add: doFetch_def)

lemma fetch_drug_calls: "snd (snd (snd (fetch_drug P u))) = [u]"
proof -
  obtain res calls where d: "doFetch P u = (res, calls)" by (cases "doFetch P u")
  with doFetch_calls [of P u] have c: "calls = [u]" by simp
  show ?thesis
    unfolding fetch_drug_def d c
    by (simp add: Let_def split: sum.splits)
qed

lemma lookup_of_error:
  "build_query P i b = Inl e \<Longrightarrow> lookup P i b = \<lparr>outcome = Inl e, fetched = [], logged = []\<rparr>"
  by (simp add: lookup_def)

lemma lookup_of_none:
  "build_query P i b = Inr None \<Longrightarrow>
   lookup P i b = \<lparr>outcome = Inr (json_response 200 NotFoundPayload), fetched = [], logged = []\<rparr>"
  by (simp add: lookup_def)

lemma lookup_of_url:
  assumes "build_query P i b = Inr (Some u)"
  shows "fetched (lookup P i b) = [u] \<and>
   logged (lookup P i b) = fst (snd (snd (fetch_drug P u))) \<and>
   outcome (lookup P i b) =
     Inr (json_response 200
            (case fst (fetch_drug P u) of
               None \<Rightarrow> NotFoundPayload
             | Some d \<Rightarrow> OkPayload d (fst (snd (fetch_drug P u)))))"
proof -
  obtain d srcs errs calls where f: "fetch_drug P u = (d, srcs, errs, calls)"
    by (cases "fetch_drug P u") auto
  with fetch_drug_calls [of P u] have c: "calls = [u]" by simp
  show ?thesis
    using assms by (simp add: lookup_def f c split: option.splits)
qed

lemma fetch_drug_rejected:
  "http_get P u = NoResponse \<Longrightarrow> fetch_drug P u = (None, [], [FetchRejected], [u])"
  by (simp add: fetch_drug_def doFetch_def)

lemma fetch_drug_other_status:
  "http_get P u = HttpResponse st body \<Longrightarrow> st \<noteq> 200 \<Longrightarrow> fetch_drug P u = (None, [], [], [u])"
  by (simp add: fetch_drug_def doFetch_def)

lemma fetch_drug_empty_results:
  "http_get P u = HttpResponse 200 body \<Longrightarrow> JSON_parse P body = Some json \<Longrightarrow>
   get json ''results'' = Inr (JArr []) \<Longrightarrow> fetch_drug P u = (None, [], [], [u])"
  by (simp add: fetch_drug_def doFetch_def js_or_def js_greater_def to_number_def Let_def)

lemma build_query_barcode_path:
  assumes "\<not> truthy (js_or (read_prop identity ''ndc'') (read_prop identity ''product_ndc''))"
    and "length (digits_of b) \<in> {10, 11, 12}"
  shows "build_query P identity (JStr b) = Inr (Some (ndc_url (digits_of b)))"
proof -
  from assms(2) have ne: "digits_of b \<noteq> []" by auto
  from assms(2) have len: "length (digits_of b) = 10 \<or> length (digits_of b) = 11 \<or>
      length (digits_of b) = 12" by simp
  show ?thesis
    using assms(1) ne len
    by (simp add: build_query_def digitsOnly_of_def encodeURIComponent_digits)
qed

lemma build_query_no_barcode_path:
  assumes "\<not> truthy (js_or (read_prop identity ''ndc'') (read_prop identity ''product_ndc''))"
    and "length (digits_of b) \<notin> {10, 11, 12}"
    and "build_query P identity (JStr b) = Inr (Some u)"
  shows "\<not> is_product_code_query u"
proof -
  from assms(2) have len: "\<not> (length (digits_of b) = 10 \<or> length (digits_of b) = 11 \<or>
      length (digits_of b) = 12)" by simp
  from assms(3) obtain parts where "u = label_url (join_with ''+AND+'' parts)"
    using assms(1) len
    by (auto simp add: build_query_def digitsOnly_of_def split: if_splits sum.splits)
  thus ?thesis by (simp add: label_url_not_product_code)
qed

text \<open>
  Claim C7.  When the identity carries no product code (neither \<open>ndc\<close> nor \<open>product_ndc\<close> is
  truthy), the query built for a barcode string is a product-code query if and only if the
  digits left after dropping every other character number exactly 10, 11 or 12; it is then
  the query for those digits, and it is the one URL fetched.  With any other digit count
  (13 and 14 included) no product-code URL is fetched.
\<close>

theorem barcode_digit_count_gate:
  "\<not> truthy (js_or (read_prop identity ''ndc'') (read_prop identity ''product_ndc'')) \<longrightarrow>
     ((\<exists>u. build_query P identity (JStr b) = Inr (Some u) \<and> is_product_code_query u)
        \<longleftrightarrow> length (digits_of b) \<in> {10, 11, 12}) \<and>
     (length (digits_of b) \<in> {10, 11, 12} \<longrightarrow>
        build_query P identity (JStr b) = Inr (Some (ndc_url (digits_of b))) \<and>
        fetched (lookup P identity (JStr b)) = [ndc_url (digits_of b)]) \<and>
     (length (digits_of b) \<notin> {10, 11, 12} \<longrightarrow>
        list_all (\<lambda>u. \<not> is_product_code_query u) (fetched (lookup P identity (JStr b))))"
proof
  assume no: "\<not> truthy (js_or (read_prop identity ''ndc'') (read_prop identity ''product_ndc''))"
  have yes: "build_query P identity (JStr b) = Inr (Some (ndc_url (digits_of b)))"
    if "length (digits_of b) \<in> {10, 11, 12}"
    using no that by (rule build_query_barcode_path)
  have non: "\<not> is_product_code_query u"
    if "length (digits_of b) \<notin> {10, 11, 12}" "build_query P identity (JStr b) = Inr (Some u)" for u
    using no that by (rule build_query_no_barcode_path)
  have iff: "(\<exists>u. build_query P identity (JStr b) = Inr (Some u) \<and> is_product_code_query u)
        \<longleftrightarrow> length (digits_of b) \<in> {10, 11, 12}"
    using yes non ndc_url_is_product_code by blast
  have fetched_yes: "fetched (lookup P identity (JStr b)) = [ndc_url (digits_of b)]"
    if "length (digits_of b) \<in> {10, 11, 12}"
    using lookup_of_url [OF yes [OF that]] by simp
  have fetched_non:
    "list_all (\<lambda>u. \<not> is_product_code_query u) (fetched (lookup P identity (JStr b)))"
    if out: "length (digits_of b) \<notin> {10, 11, 12}"
  proof (cases "build_query P identity (JStr b)")
    case (Inl e)
    thus ?thesis by (simp add: lookup_of_error)
  next
    case (Inr q)
    show ?thesis
    proof (cases q)
      case None
      with Inr show ?thesis by (simp add: lookup_of_none)
    next
      case (Some u)
      with Inr have bq: "build_query P identity (JStr b) = Inr (Some u)" by simp
      from non [OF out bq] lookup_of_url [OF bq] show ?thesis by simp
    qed
  qed
  show "((\<exists>u. build_query P identity (JStr b) = Inr (Some u) \<and> is_product_code_query u)
        \<longleftrightarrow> length (digits_of b) \<in> {10, 11, 12}) \<and>
     (length (digits_of b) \<in> {10, 11, 12} \<longrightarrow>
        build_query P identity (JStr b) = Inr (Some (ndc_url (digits_of b))) \<and>
        fetched (lookup P identity (JStr b)) = [ndc_url (digits_of b)]) \<and>
     (length (digits_of b) \<notin> {10, 11, 12} \<longrightarrow>
        list_all (\<lambda>u. \<not> is_product_code_query u) (fetched (lookup P identity (JStr b))))"
    using iff yes fetched_yes fetched_non by blast
qed

lemma sample_fields:
  "JSON_parse sample_platform = JSON_parse_sample"
  "http_get sample_platform = http_get_sample"
  "has_fetch sample_platform = True"
  by (simp_all add: sample_platform_def)

lemma digits_examples:
  "digits_of ''0 12345 67890'' = ''01234567890''"
  "digits_of ''0123456789012'' = ''0123456789012''"
  "digits_of ''0123456789'' = ''0123456789''"
  "digits_of [] = []"
  by (simp_all add: digits_of_def)

theorem barcode_digit_count_gate_witness:
  "\<not> truthy (js_or (read_prop (JObj []) ''ndc'') (read_prop (JObj []) ''product_ndc'')) \<and>
   length (digits_of ''0 12345 67890'') = 11 \<and>
   build_query sample_platform (JObj []) (JStr ''0 12345 67890'') =
     Inr (Some ''https://api.fda.gov/drug/ndc.json?search=product_ndc:01234567890&limit=1'') \<and>
   fetched (lookup sample_platform (JObj []) (JStr ''0 12345 67890'')) =
     [''https://api.fda.gov/drug/ndc.json?search=product_ndc:01234567890&limit=1''] \<and>
   length (digits_of ''0123456789012'') = 13 \<and>
   build_query sample_platform (JObj []) (JStr ''0123456789012'') = Inr None"
proof -
  have no: "\<not> truthy (js_or (read_prop (JObj []) ''ndc'') (read_prop (JObj []) ''product_ndc''))"
    by (simp add: js_or_def own_def)
  have none: "build_query sample_platform (JObj []) (JStr ''0123456789012'') = Inr None"
    by (simp add: build_query_def digitsOnly_of_def digits_examples js_or_def own_def)
  show ?thesis
    using barcode_digit_count_gate [of "JObj []" sample_platform "''0 12345 67890''"] no none
    by (simp add: digits_examples ndc_url_def)
qed

text \<open>
  Claim C6.  Once a query URL is chosen, the lookup always ends in a 200 response with one of
  the two documented bodies, never in an exception, and fetches exactly that URL.  A rejected
  fetch gives \<open>Not_Found\<close> and is logged; a status other than 200 gives \<open>Not_Found\<close>; a 200 whose
  body has an empty \<open>results\<close> array gives \<open>Not_Found\<close>.
\<close>

theorem transport_failures_yield_not_found:
  "build_query P identity barcode = Inr (Some url) \<longrightarrow>
     (\<exists>r. outcome (lookup P identity barcode) = Inr r \<and> is_lookup_answer r) \<and>
     fetched (lookup P identity barcode) = [url] \<and>
     (http_get P url = NoResponse \<longrightarrow>
        outcome (lookup P identity barcode) = Inr (json_response 200 NotFoundPayload) \<and>
        logged (lookup P identity barcode) = [FetchRejected]) \<and>
     (\<forall>st body. http_get P url = HttpResponse st body \<and> st \<noteq> 200 \<longrightarrow>
        outcome (lookup P identity barcode) = Inr (json_response 200 NotFoundPayload)) \<and>
     (\<forall>body json. http_get P url = HttpResponse 200 body \<and> JSON_parse P body = Some json \<and>
          get json ''results'' = Inr (JArr []) \<longrightarrow>
        outcome (lookup P identity barcode) = Inr (json_response 200 NotFoundPayload))"
proof
  assume bq: "build_query P identity barcode = Inr (Some url)"
  note lk = lookup_of_url [OF bq]
  have ans: "\<exists>r. outcome (lookup P identity barcode) = Inr r \<and> is_lookup_answer r"
    using lk by (simp add: is_lookup_answer_def json_response_def split: option.splits)
  have rej: "outcome (lookup P identity barcode) = Inr (json_response 200 NotFoundPayload) \<and>
        logged (lookup P identity barcode) = [FetchRejected]"
    if "http_get P url = NoResponse"
    using lk fetch_drug_rejected [OF that] by simp
  have other: "outcome (lookup P identity barcode) = Inr (json_response 200 NotFoundPayload)"
    if "http_get P url = HttpResponse st body \<and> st \<noteq> 200" for st body
    using lk fetch_drug_other_status [of P url st body] that by simp
  have empty: "outcome (lookup P identity barcode) = Inr (json_response 200 NotFoundPayload)"
    if "http_get P url = HttpResponse 200 body \<and> JSON_parse P body = Some json \<and>
          get json ''results'' = Inr (JArr [])" for body json
    using lk fetch_drug_empty_results [of P url body json] that by simp
  show "(\<exists>r. outcome (lookup P identity barcode) = Inr r \<and> is_lookup_answer r) \<and>
     fetched (lookup P identity barcode) = [url] \<and>
     (http_get P url = NoResponse \<longrightarrow>
        outcome (lookup P identity barcode) = Inr (json_response 200 NotFoundPayload) \<and>
        logged (lookup P identity barcode) = [FetchRejected]) \<and>
     (\<forall>st body. http_get P url = HttpResponse st body \<and> st \<noteq> 200 \<longrightarrow>
        outcome (lookup P identity barcode) = Inr (json_response 200 NotFoundPayload)) \<and>
     (\<forall>body json. http_get P url = HttpResponse 200 body \<and> JSON_parse P body = Some json \<and>
          get json ''results'' = Inr (JArr []) \<longrightarrow>
        outcome (lookup P identity barcode) = Inr (json_response 200 NotFoundPayload))"
    using ans lk rej other empty by blast
qed

lemma no_code_in_empty:
  "\<not> truthy (js_or (read_prop (JObj []) ''ndc'') (read_prop (JObj []) ''product_ndc''))"
  by (simp add: js_or_def own_def)

lemma sample_http:
  "http_get sample_platform (ndc_url ''9999999999'') = NoResponse"
  "http_get sample_platform (ndc_url ''01234567890'') = HttpResponse 404 text_not_found"
  "http_get sample_platform (ndc_url ''0123456789'') = HttpResponse 200 text_no_results"
  "http_get sample_platform (ndc_url ''12345-678-90'') = HttpResponse 200 text_acme"
  by (simp_all add: sample_fields http_get_sample_def ndc_url_def dq_def)

lemma sample_texts_nonempty:
  "text_numeric_barcode \<noteq> []" "text_with_ndc \<noteq> []" "text_ndc_object \<noteq> []"
  "text_ndc_surrogate \<noteq> []"
  by (simp_all add: text_numeric_barcode_def text_with_ndc_def text_ndc_object_def
      text_ndc_surrogate_def)

lemma sample_parse:
  "JSON_parse sample_platform ''{}'' = Some (JObj [])"
  "JSON_parse sample_platform ''null'' = Some JNull"
  "JSON_parse sample_platform text_no_results = Some (JObj [(''results'', JArr [])])"
  "JSON_parse sample_platform text_numeric_barcode =
     Some (JObj [(''barcode'', JNum (Finite 12345678901))])"
  "JSON_parse sample_platform text_with_ndc =
     Some (JObj [(''identity'', JObj [(''ndc'', JStr ''12345-678-90'')]), (''barcode'', JStr [])])"
  "JSON_parse sample_platform text_acme =
     Some (JObj [(''results'',
               JArr [JObj [(''openfda'', JObj [(''brand_name'', JArr [JStr ''Acme''])])]])])"
  "JSON_parse sample_platform text_advil =
     Some (JObj [(''results'',
               JArr [JObj [(''openfda'', JObj [(''brand_name'', JArr [JStr ''Advil''])])]])])"
  "JSON_parse sample_platform text_ndc_object =
     Some (JObj [(''identity'', JObj [(''ndc'', JObj [(''toString'', JStr ''x'')])])])"
  "JSON_parse sample_platform text_ndc_surrogate =
     Some (JObj [(''identity'', JObj [(''ndc'', JStr lone_surrogate)])])"
  "JSON_parse sample_platform ''{bad'' = None"
  by (simp_all add: sample_fields JSON_parse_sample_def text_no_results_def text_acme_def
      text_advil_def text_not_found_def text_numeric_barcode_def text_with_ndc_def
      text_ndc_object_def text_ndc_surrogate_def dq_def)

theorem transport_failures_yield_not_found_witness:
  "build_query sample_platform (JObj []) (JStr ''9999999999'') =
     Inr (Some (ndc_url ''9999999999'')) \<and>
   http_get sample_platform (ndc_url ''9999999999'') = NoResponse \<and>
   outcome (lookup sample_platform (JObj []) (JStr ''9999999999'')) =
     Inr (json_response 200 NotFoundPayload) \<and>
   logged (lookup sample_platform (JObj []) (JStr ''9999999999'')) = [FetchRejected] \<and>
   http_get sample_platform (ndc_url ''01234567890'') = HttpResponse 404 text_not_found \<and>
   outcome (lookup sample_platform (JObj []) (JStr ''01234567890'')) =
     Inr (json_response 200 NotFoundPayload) \<and>
   http_get sample_platform (ndc_url ''0123456789'') = HttpResponse 200 text_no_results \<and>
   JSON_parse sample_platform text_no_results = Some (JObj [(''results'', JArr [])]) \<and>
   outcome (lookup sample_platform (JObj []) (JStr ''0123456789'')) =
     Inr (json_response 200 NotFoundPayload)"
proof -
  have d: "digits_of ''9999999999'' = ''9999999999''" "digits_of ''01234567890'' = ''01234567890''"
    "digits_of ''0123456789'' = ''0123456789''"
    by (simp_all add: digits_of_def)
  have q1: "build_query sample_platform (JObj []) (JStr ''9999999999'') =
      Inr (Some (ndc_url ''9999999999''))"
    using build_query_barcode_path [OF no_code_in_empty, of "''9999999999''" sample_platform]
    by (simp add: d)
  have q2: "build_query sample_platform (JObj []) (JStr ''01234567890'') =
      Inr (Some (ndc_url ''01234567890''))"
    using build_query_barcode_path [OF no_code_in_empty, of "''01234567890''" sample_platform]
    by (simp add: d)
  have q3: "build_query sample_platform (JObj []) (JStr ''0123456789'') =
      Inr (Some (ndc_url ''0123456789''))"
    using build_query_barcode_path [OF no_code_in_empty, of "''0123456789''" sample_platform]
    by (simp add: d)
  have g: "get (JObj [(''results'', JArr [])]) ''results'' = Inr (JArr [])"
    by (simp add: get_def nullish_def own_def)
  have ne: "(404 :: nat) \<noteq> 200" by simp
  have r1: "outcome (lookup sample_platform (JObj []) (JStr ''9999999999'')) =
       Inr (json_response 200 NotFoundPayload) \<and>
     logged (lookup sample_platform (JObj []) (JStr ''9999999999'')) = [FetchRejected]"
    using transport_failures_yield_not_found
      [of sample_platform "JObj []" "JStr ''9999999999''" "ndc_url ''9999999999''"]
      q1 sample_http(1) by blast
  have r2: "outcome (lookup sample_platform (JObj []) (JStr ''01234567890'')) =
       Inr (json_response 200 NotFoundPayload)"
    using transport_failures_yield_not_found
      [of sample_platform "JObj []" "JStr ''01234567890''" "ndc_url ''01234567890''"]
      q2 sample_http(2) ne by blast
  have r3: "outcome (lookup sample_platform (JObj []) (JStr ''0123456789'')) =
       Inr (json_response 200 NotFoundPayload)"
    using transport_failures_yield_not_found
      [of sample_platform "JObj []" "JStr ''0123456789''" "ndc_url ''0123456789''"]
      q3 sample_http(3) sample_parse(3) g by blast
  show ?thesis
    using q1 r1 r2 r3 sample_http sample_parse(3) by simp
qed

lemma to_string_only_TypeError:
  "to_string P v = Inl e \<Longrightarrow> e = TypeError"
  "join_comma P vs = Inl e \<Longrightarrow> e = TypeError"
  "element_string P v = Inl e \<Longrightarrow> e = TypeError"
  by (induction P v and P vs and P v rule: to_string_join_comma_element_string.induct)
     (auto split: if_splits sum.splits)

lemma encodeURIComponent_result:
  "encodeURIComponent P v =
     (if \<not> stringifiable P v then Inl TypeError
      else if \<not> encodable P v then Inl URIError
      else encodeURIComponent P v) \<and>
   (encodable P v \<longleftrightarrow> (\<exists>code. encodeURIComponent P v = Inr code))"
  by (auto simp add: encodeURIComponent_def stringifiable_def encodable_def
      split: sum.splits dest: to_string_only_TypeError(1))

lemma encodeURIComponent_errors:
  "encodeURIComponent P v = Inl e \<Longrightarrow> e = TypeError \<or> e = URIError"
  by (auto simp add: encodeURIComponent_def split: sum.splits if_splits
      dest: to_string_only_TypeError(1))

lemma push_part_only_TypeError:
  assumes "push_part P i n acc = Inl e" "\<And>e'. acc = Inl e' \<Longrightarrow> e' = TypeError"
  shows "e = TypeError"
  using assms
  by (auto simp add: push_part_def split: sum.splits if_splits dest: to_string_only_TypeError(1))

lemma push_parts_only_TypeError:
  assumes "push_part P i ''dosage_form''
      (push_part P i ''generic_name'' (push_part P i ''brand_name'' (Inr []))) = Inl e"
  shows "e = TypeError"
proof -
  have p1: "\<And>e'. push_part P i ''brand_name'' (Inr []) = Inl e' \<Longrightarrow> e' = TypeError"
    by (erule push_part_only_TypeError) simp
  have p2: "\<And>e'. push_part P i ''generic_name'' (push_part P i ''brand_name'' (Inr [])) = Inl e'
      \<Longrightarrow> e' = TypeError"
    by (erule push_part_only_TypeError) (rule p1)
  show ?thesis
    using assms by (rule push_part_only_TypeError) (rule p2)
qed

lemma push_parts_usable:
  "(\<exists>parts. push_part P i ''dosage_form''
      (push_part P i ''generic_name'' (push_part P i ''brand_name'' (Inr []))) = Inr parts)
   \<longleftrightarrow> list_all (\<lambda>n. \<not> truthy (read_prop i n) \<or> stringifiable P (read_prop i n))
          [''brand_name'', ''generic_name'', ''dosage_form'']"
  by (auto simp add: push_part_def stringifiable_def split: sum.splits)

lemma build_query_errors:
  assumes "build_query P i b = Inl e"
  shows "e = TypeError \<or> e = URIError"
  using assms push_parts_only_TypeError [of P i]
  by (auto simp add: build_query_def digitsOnly_of_def
      split: sum.splits if_splits jsval.splits dest: encodeURIComponent_errors)

lemma lookup_outcome:
  "outcome (lookup P i b) = Inl TypeError \<or> outcome (lookup P i b) = Inl URIError \<or>
   (\<exists>r. outcome (lookup P i b) = Inr r \<and> is_lookup_answer r)"
proof (cases "build_query P i b")
  case (Inl e)
  with build_query_errors [OF Inl] show ?thesis by (auto simp add: lookup_of_error)
next
  case (Inr q)
  show ?thesis
  proof (cases q)
    case None
    with Inr show ?thesis
      by (simp add: lookup_of_none is_lookup_answer_def json_response_def)
  next
    case (Some u)
    with Inr have "build_query P i b = Inr (Some u)" by simp
    from lookup_of_url [OF this] show ?thesis
      by (simp add: is_lookup_answer_def json_response_def split: option.splits)
  qed
qed

lemma barcode_as_string:
  assumes "barcode_usable v"
  shows "js_or v (JStr []) = JStr (case v of JStr s \<Rightarrow> s | _ \<Rightarrow> [])"
    and "digits_of (case v of JStr s \<Rightarrow> s | _ \<Rightarrow> []) =
         (case v of JStr s \<Rightarrow> digits_of s | _ \<Rightarrow> [])"
  using assms
  by (cases v; auto simp add: barcode_usable_def js_or_def digits_of_def)+

lemma build_query_string_usable:
  "(\<exists>q. build_query P i (JStr s) = Inr q) \<longleftrightarrow> query_fields_usable P i (digits_of s)"
proof -
  let ?code = "js_or (read_prop i ''ndc'') (read_prop i ''product_ndc'')"
  let ?len = "length (digits_of s) \<in> {10, 11, 12}"
  let ?names = "js_or (read_prop i ''brand_name'') (read_prop i ''generic_name'')"
  consider (code) "truthy ?code" | (digits) "\<not> truthy ?code" ?len
    | (names) "\<not> truthy ?code" "\<not> ?len" "truthy ?names"
    | (none) "\<not> truthy ?code" "\<not> ?len" "\<not> truthy ?names"
    by blast
  thus ?thesis
  proof cases
    case code
    have "(\<exists>q. build_query P i (JStr s) = Inr q) \<longleftrightarrow>
        (\<exists>c. encodeURIComponent P ?code = Inr c)"
      using code by (auto simp add: build_query_def digitsOnly_of_def split: sum.splits)
    thus ?thesis
      using code encodeURIComponent_result [of P ?code]
      by (simp only: query_fields_usable_def if_True)
  next
    case digits
    from build_query_barcode_path [OF digits, of P] digits show ?thesis
      by (simp add: query_fields_usable_def)
  next
    case names
    from names(2) have len: "\<not> (digits_of s \<noteq> [] \<and> (length (digits_of s) = 10 \<or>
        length (digits_of s) = 11 \<or> length (digits_of s) = 12))" by simp
    have "(\<exists>q. build_query P i (JStr s) = Inr q) \<longleftrightarrow>
        (\<exists>parts. push_part P i ''dosage_form''
           (push_part P i ''generic_name'' (push_part P i ''brand_name'' (Inr []))) = Inr parts)"
      using names(1,3) len
      by (auto simp add: build_query_def digitsOnly_of_def split: sum.splits)
    thus ?thesis
      using names unfolding push_parts_usable
      by (simp only: query_fields_usable_def if_True if_False)
  next
    case none
    from none(2) have len: "\<not> (digits_of s \<noteq> [] \<and> (length (digits_of s) = 10 \<or>
        length (digits_of s) = 11 \<or> length (digits_of s) = 12))" by simp
    have "build_query P i (JStr s) = Inr None"
      using none(1,3) len by (auto simp add: build_query_def digitsOnly_of_def)
    thus ?thesis using none by (simp add: query_fields_usable_def)
  qed
qed

lemma build_query_usable:
  "(\<exists>q. build_query P i (js_or v (JStr [])) = Inr q) \<longleftrightarrow>
   barcode_usable v \<and>
   query_fields_usable P i (case v of JStr s \<Rightarrow> digits_of s | _ \<Rightarrow> [])"
proof (cases "barcode_usable v")
  case True
  show ?thesis
    unfolding barcode_as_string(1) [OF True] build_query_string_usable
      barcode_as_string(2) [OF True]
    using True by simp
next
  case False
  hence "build_query P i (js_or v (JStr [])) = Inl TypeError"
    by (cases v) (auto simp add: barcode_usable_def js_or_def build_query_def digitsOnly_of_def)
  with False show ?thesis by simp
qed

lemma handler_not_post:
  "req_method req \<noteq> ''POST'' \<Longrightarrow>
   handler P req = \<lparr>outcome = Inr (json_response 405 (ErrorPayload ''Method not allowed'')),
                     fetched = [], logged = []\<rparr>"
  by (simp add: handler_def)

lemma handler_bad_json:
  "req_method req = ''POST'' \<Longrightarrow>
   JSON_parse P (if req_body req = [] then ''{}'' else req_body req) = None \<Longrightarrow>
   handler P req = \<lparr>outcome = Inr (json_response 400 (ErrorPayload ''Invalid JSON'')),
                     fetched = [], logged = []\<rparr>"
  by (simp add: handler_def)

lemma handler_parsed:
  "req_method req = ''POST'' \<Longrightarrow>
   JSON_parse P (if req_body req = [] then ''{}'' else req_body req) = Some data \<Longrightarrow>
   handler P req =
     (if nullish data then \<lparr>outcome = Inl TypeError, fetched = [], logged = []\<rparr>
      else lookup P (js_or (read_prop data ''identity'') (JObj []))
                    (js_or (read_prop data ''barcode'') (JStr [])))"
  by (simp add: handler_def get_def)

lemma route_of_outcome:
  "outcome (handler P req) = Inr r \<Longrightarrow> identify_route P req = r"
  "outcome (handler P req) = Inl e \<Longrightarrow>
   identify_route P req =
     \<lparr>statusCode = 500, contentType = ''application/json; charset=utf-8'',
      payload = ErrorPayload ''Internal Server Error''\<rparr>"
  by (simp_all add: identify_route_def internal_server_error_def)

text \<open>
  Claim C5, as the handler and the route of the server script have it.  A request that is not
  a POST gets 405.  A POST with a non-empty body that \<open>JSON.parse\<close> rejects gets 400.  A POST
  whose body parses gets 200 with \<open>OK\<close> or \<open>Not_Found\<close> exactly when the parsed body is usable:
  it is not \<open>null\<close>, its barcode is absent, falsy or a string, and the identity fields that the
  chosen query puts into its URL can be put there (a product code converts to a string without
  an unpaired surrogate; when there is no product code and the barcode does not supply one,
  each present one of brand name, generic name and dosage form converts to a string, if a
  brand or generic name is present).  For every other parsed body the handler throws a
  \<open>TypeError\<close> or a \<open>URIError\<close> before any request is made, and the route answers 500 with the
  body \<open>{error: 'Internal Server Error'}\<close> and the content type
  \<open>application/json; charset=utf-8\<close>.
\<close>

theorem proxy_status_codes:
  "(req_method req \<noteq> ''POST'' \<longrightarrow>
      outcome (handler P req) = Inr (json_response 405 (ErrorPayload ''Method not allowed'')) \<and>
      fetched (handler P req) = [] \<and>
      statusCode (identify_route P req) = 405) \<and>
   (req_method req = ''POST'' \<and> req_body req \<noteq> [] \<and> JSON_parse P (req_body req) = None \<longrightarrow>
      outcome (handler P req) = Inr (json_response 400 (ErrorPayload ''Invalid JSON'')) \<and>
      fetched (handler P req) = [] \<and>
      statusCode (identify_route P req) = 400) \<and>
   (req_method req = ''POST'' \<and>
    JSON_parse P (if req_body req = [] then ''{}'' else req_body req) = Some data \<longrightarrow>
      (body_usable P data \<longrightarrow>
         (\<exists>r. outcome (handler P req) = Inr r \<and> is_lookup_answer r \<and>
              identify_route P req = r)) \<and>
      (\<not> body_usable P data \<longrightarrow>
         (outcome (handler P req) = Inl TypeError \<or> outcome (handler P req) = Inl URIError) \<and>
         fetched (handler P req) = [] \<and>
         identify_route P req =
           \<lparr>statusCode = 500, contentType = ''application/json; charset=utf-8'',
            payload = ErrorPayload ''Internal Server Error''\<rparr>))"
proof -
  have c405: "outcome (handler P req) = Inr (json_response 405 (ErrorPayload ''Method not allowed'')) \<and>
      fetched (handler P req) = [] \<and> statusCode (identify_route P req) = 405"
    if "req_method req \<noteq> ''POST''"
    using handler_not_post [OF that, of P]
    by (simp add: identify_route_def json_response_def)
  have c400: "outcome (handler P req) = Inr (json_response 400 (ErrorPayload ''Invalid JSON'')) \<and>
      fetched (handler P req) = [] \<and> statusCode (identify_route P req) = 400"
    if "req_method req = ''POST'' \<and> req_body req \<noteq> [] \<and> JSON_parse P (req_body req) = None"
    using handler_bad_json [of req P] that
    by (simp add: identify_route_def json_response_def)
  have parsed: "(body_usable P data \<longrightarrow>
         (\<exists>r. outcome (handler P req) = Inr r \<and> is_lookup_answer r \<and>
              identify_route P req = r)) \<and>
      (\<not> body_usable P data \<longrightarrow>
         (outcome (handler P req) = Inl TypeError \<or> outcome (handler P req) = Inl URIError) \<and>
         fetched (handler P req) = [] \<and>
         identify_route P req =
           \<lparr>statusCode = 500, contentType = ''application/json; charset=utf-8'',
            payload = ErrorPayload ''Internal Server Error''\<rparr>)"
    if pre: "req_method req = ''POST'' \<and>
      JSON_parse P (if req_body req = [] then ''{}'' else req_body req) = Some data"
  proof -
    let ?i = "js_or (read_prop data ''identity'') (JObj [])"
    let ?v = "read_prop data ''barcode''"
    let ?b = "js_or ?v (JStr [])"
    have h: "handler P req =
       (if nullish data then \<lparr>outcome = Inl TypeError, fetched = [], logged = []\<rparr>
        else lookup P ?i ?b)"
      using pre by (intro handler_parsed) simp_all
    have good: "\<exists>r. outcome (handler P req) = Inr r \<and> is_lookup_answer r \<and>
              identify_route P req = r"
      if u: "body_usable P data"
    proof -
      from u have nn: "\<not> nullish data"
        and bu: "barcode_usable ?v \<and>
          query_fields_usable P ?i (case ?v of JStr s \<Rightarrow> digits_of s | _ \<Rightarrow> [])"
        by (simp_all add: body_usable_def)
      from bu obtain q where q: "build_query P ?i ?b = Inr q"
        unfolding build_query_usable [symmetric] ..
      have "outcome (lookup P ?i ?b) \<noteq> Inl TypeError" "outcome (lookup P ?i ?b) \<noteq> Inl URIError"
        using q by (simp_all add: lookup_def split: option.splits prod.splits)
      with lookup_outcome [of P ?i ?b]
      obtain r where "outcome (lookup P ?i ?b) = Inr r" "is_lookup_answer r" by blast
      with nn h show ?thesis by (simp add: route_of_outcome(1))
    qed
    have bad: "(outcome (handler P req) = Inl TypeError \<or> outcome (handler P req) = Inl URIError) \<and>
         fetched (handler P req) = [] \<and>
         identify_route P req =
           \<lparr>statusCode = 500, contentType = ''application/json; charset=utf-8'',
            payload = ErrorPayload ''Internal Server Error''\<rparr>"
      if nu: "\<not> body_usable P data"
    proof -
      have thrown: "\<exists>e. handler P req = \<lparr>outcome = Inl e, fetched = [], logged = []\<rparr> \<and>
          (e = TypeError \<or> e = URIError)"
      proof (cases "nullish data")
        case True
        thus ?thesis by (simp add: h)
      next
        case False
        with nu have "\<not> (barcode_usable ?v \<and>
            query_fields_usable P ?i (case ?v of JStr s \<Rightarrow> digits_of s | _ \<Rightarrow> []))"
          by (simp add: body_usable_def)
        hence "\<not> (\<exists>q. build_query P ?i ?b = Inr q)"
          unfolding build_query_usable .
        then obtain e where e: "build_query P ?i ?b = Inl e"
          by (cases "build_query P ?i ?b") auto
        from build_query_errors [OF e] lookup_of_error [OF e] False show ?thesis
          by (simp add: h)
      qed
      then obtain e where e: "handler P req = \<lparr>outcome = Inl e, fetched = [], logged = []\<rparr>"
        "e = TypeError \<or> e = URIError" by blast
      from e(1) have o: "outcome (handler P req) = Inl e" by simp
      show ?thesis
        using e o route_of_outcome(2) [OF o] by auto
    qed
    show ?thesis using good bad by blast
  qed
  show ?thesis using c405 c400 parsed by blast
qed



lemma sample_bodies_usable:
  "body_usable sample_platform
     (JObj [(''identity'', JObj [(''ndc'', JStr ''12345-678-90'')]), (''barcode'', JStr [])])"
  "\<not> body_usable sample_platform JNull"
  "\<not> body_usable sample_platform (JObj [(''barcode'', JNum (Finite 12345678901))])"
  "\<not> body_usable sample_platform
       (JObj [(''identity'', JObj [(''ndc'', JObj [(''toString'', JStr ''x'')])])])"
  "\<not> body_usable sample_platform (JObj [(''identity'', JObj [(''ndc'', JStr lone_surrogate)])])"
  by (simp_all add: body_usable_def nullish_def barcode_usable_def query_fields_usable_def
      encodable_def js_or_def own_def lone_surrogate_def byte_def)

text \<open>
  Claim C5 as the specification states it fails on POSTs with JSON bodies, which get neither
  400 nor 200: the body \<open>null\<close>, and a body whose barcode is a number.
\<close>

theorem every_other_post_counterexample:
  "req_method \<lparr>req_method = ''POST'', req_body = ''null''\<rparr> = ''POST'' \<and>
   JSON_parse sample_platform ''null'' = Some JNull \<and>
   outcome (handler sample_platform \<lparr>req_method = ''POST'', req_body = ''null''\<rparr>) =
     Inl TypeError \<and>
   statusCode (identify_route sample_platform \<lparr>req_method = ''POST'', req_body = ''null''\<rparr>)
     = 500 \<and>
   JSON_parse sample_platform text_numeric_barcode =
     Some (JObj [(''barcode'', JNum (Finite 12345678901))]) \<and>
   outcome (handler sample_platform \<lparr>req_method = ''POST'', req_body = text_numeric_barcode\<rparr>) =
     Inl TypeError \<and>
   statusCode
     (identify_route sample_platform \<lparr>req_method = ''POST'', req_body = text_numeric_barcode\<rparr>)
     = 500"
proof -
  have a: "outcome (handler sample_platform \<lparr>req_method = ''POST'', req_body = ''null''\<rparr>) =
     Inl TypeError"
    by (simp add: handler_def sample_parse get_def nullish_def)
  have b: "outcome (handler sample_platform
      \<lparr>req_method = ''POST'', req_body = text_numeric_barcode\<rparr>) = Inl TypeError"
    using sample_texts_nonempty(1)
    by (simp add: handler_def sample_parse get_def nullish_def lookup_def build_query_def
        digitsOnly_of_def js_or_def own_def)
  show ?thesis
    using a b sample_parse
    by (simp add: identify_route_def internal_server_error_def)
qed

theorem proxy_status_codes_witness:
  "outcome (handler sample_platform \<lparr>req_method = ''GET'', req_body = []\<rparr>) =
     Inr (json_response 405 (ErrorPayload ''Method not allowed'')) \<and>
   JSON_parse sample_platform ''{bad'' = None \<and>
   outcome (handler sample_platform \<lparr>req_method = ''POST'', req_body = ''{bad''\<rparr>) =
     Inr (json_response 400 (ErrorPayload ''Invalid JSON'')) \<and>
   JSON_parse sample_platform text_with_ndc =
     Some (JObj [(''identity'', JObj [(''ndc'', JStr ''12345-678-90'')]), (''barcode'', JStr [])]) \<and>
   body_usable sample_platform
     (JObj [(''identity'', JObj [(''ndc'', JStr ''12345-678-90'')]), (''barcode'', JStr [])]) \<and>
   (\<exists>r. outcome (handler sample_platform \<lparr>req_method = ''POST'', req_body = text_with_ndc\<rparr>)
          = Inr r \<and> is_lookup_answer r) \<and>
   JSON_parse sample_platform text_ndc_surrogate =
     Some (JObj [(''identity'', JObj [(''ndc'', JStr lone_surrogate)])]) \<and>
   \<not> body_usable sample_platform (JObj [(''identity'', JObj [(''ndc'', JStr lone_surrogate)])]) \<and>
   identify_route sample_platform \<lparr>req_method = ''POST'', req_body = text_ndc_surrogate\<rparr> =
     \<lparr>statusCode = 500, contentType = ''application/json; charset=utf-8'',
      payload = ErrorPayload ''Internal Server Error''\<rparr>"
proof -
  have g: "outcome (handler sample_platform \<lparr>req_method = ''GET'', req_body = []\<rparr>) =
     Inr (json_response 405 (ErrorPayload ''Method not allowed''))"
    using proxy_status_codes [of "\<lparr>req_method = ''GET'', req_body = []\<rparr>" sample_platform JNull]
    by simp
  have b: "outcome (handler sample_platform \<lparr>req_method = ''POST'', req_body = ''{bad''\<rparr>) =
     Inr (json_response 400 (ErrorPayload ''Invalid JSON''))"
    using proxy_status_codes
      [of "\<lparr>req_method = ''POST'', req_body = ''{bad''\<rparr>" sample_platform JNull]
      sample_parse(10)
    by simp
  have k: "\<exists>r. outcome (handler sample_platform
      \<lparr>req_method = ''POST'', req_body = text_with_ndc\<rparr>) = Inr r \<and> is_lookup_answer r"
    using proxy_status_codes
      [of "\<lparr>req_method = ''POST'', req_body = text_with_ndc\<rparr>" sample_platform
          "JObj [(''identity'', JObj [(''ndc'', JStr ''12345-678-90'')]), (''barcode'', JStr [])]"]
      sample_texts_nonempty(2) sample_bodies_usable(1) sample_parse(5)
    by auto
  have n: "identify_route sample_platform
      \<lparr>req_method = ''POST'', req_body = text_ndc_surrogate\<rparr> =
     \<lparr>statusCode = 500, contentType = ''application/json; charset=utf-8'',
      payload = ErrorPayload ''Internal Server Error''\<rparr>"
    using proxy_status_codes
      [of "\<lparr>req_method = ''POST'', req_body = text_ndc_surrogate\<rparr>" sample_platform
          "JObj [(''identity'', JObj [(''ndc'', JStr lone_surrogate)])]"]
      sample_texts_nonempty(4) sample_bodies_usable(5) sample_parse(9)
    by simp
  show ?thesis
    using g b k n sample_bodies_usable(1,5) sample_parse(5,9,10) by simp
qed

lemma truthy_js_or: "truthy (js_or x y) \<longleftrightarrow> truthy x \<or> truthy y"
  by (simp add: js_or_def)

lemma push_parts_strings:
  assumes "truthy (read_prop i ''brand_name'') \<longrightarrow> to_string P (read_prop i ''brand_name'') = Inr sb"
    and "truthy (read_prop i ''generic_name'') \<longrightarrow>
           to_string P (read_prop i ''generic_name'') = Inr sg"
    and "truthy (read_prop i ''dosage_form'') \<longrightarrow>
           to_string P (read_prop i ''dosage_form'') = Inr sd"
  shows "push_part P i ''dosage_form''
      (push_part P i ''generic_name'' (push_part P i ''brand_name'' (Inr []))) =
     Inr ((if truthy (read_prop i ''brand_name'') then [exact_part ''brand_name'' sb] else []) @
          (if truthy (read_prop i ''generic_name'') then [exact_part ''generic_name'' sg] else []) @
          (if truthy (read_prop i ''dosage_form'') then [exact_part ''dosage_form'' sd] else []))"
  using assms by (simp add: push_part_def)

lemma label_url_of_parts:
  assumes "tb \<or> tg"
  shows "label_url (join_with ''+AND+''
       ((if tb then [exact_part ''brand_name'' sb] else []) @
        (if tg then [exact_part ''generic_name'' sg] else []) @
        (if td then [exact_part ''dosage_form'' sd] else []))) =
     ''https://api.fda.gov/drug/label.json?search='' @
     (if tb then ''openfda.brand_name.exact:'' @ [CHR 0x22] @ sb @ [CHR 0x22] else []) @
     (if tb \<and> tg then ''+AND+'' else []) @
     (if tg then ''openfda.generic_name.exact:'' @ [CHR 0x22] @ sg @ [CHR 0x22] else []) @
     (if td then ''+AND+openfda.dosage_form.exact:'' @ [CHR 0x22] @ sd @ [CHR 0x22] else []) @
     ''&limit=1''"
  using assms
  by (cases tb; cases tg; cases td; simp add: exact_part_def label_url_def)

lemma build_query_label_path:
  assumes no: "\<not> truthy (js_or (read_prop i ''ndc'') (read_prop i ''product_ndc''))"
    and len: "length (digits_of b) \<notin> {10, 11, 12}"
    and nm: "truthy (js_or (read_prop i ''brand_name'') (read_prop i ''generic_name''))"
    and sb: "truthy (read_prop i ''brand_name'') \<longrightarrow>
               to_string P (read_prop i ''brand_name'') = Inr sb"
    and sg: "truthy (read_prop i ''generic_name'') \<longrightarrow>
               to_string P (read_prop i ''generic_name'') = Inr sg"
    and sd: "truthy (read_prop i ''dosage_form'') \<longrightarrow>
               to_string P (read_prop i ''dosage_form'') = Inr sd"
  shows "build_query P i (JStr b) =
     Inr (Some
       (''https://api.fda.gov/drug/label.json?search='' @
        (if truthy (read_prop i ''brand_name'')
         then ''openfda.brand_name.exact:'' @ [CHR 0x22] @ sb @ [CHR 0x22] else []) @
        (if truthy (read_prop i ''brand_name'') \<and> truthy (read_prop i ''generic_name'')
         then ''+AND+'' else []) @
        (if truthy (read_prop i ''generic_name'')
         then ''openfda.generic_name.exact:'' @ [CHR 0x22] @ sg @ [CHR 0x22] else []) @
        (if truthy (read_prop i ''dosage_form'')
         then ''+AND+openfda.dosage_form.exact:'' @ [CHR 0x22] @ sd @ [CHR 0x22] else []) @
        ''&limit=1''))"
proof -
  from len have len': "\<not> (digits_of b \<noteq> [] \<and> (length (digits_of b) = 10 \<or>
      length (digits_of b) = 11 \<or> length (digits_of b) = 12))" by simp
  from nm have some: "truthy (read_prop i ''brand_name'') \<or> truthy (read_prop i ''generic_name'')"
    by (simp add: truthy_js_or)
  have q: "build_query P i (JStr b) =
     Inr (Some (label_url (join_with ''+AND+''
       ((if truthy (read_prop i ''brand_name'') then [exact_part ''brand_name'' sb] else []) @
        (if truthy (read_prop i ''generic_name'') then [exact_part ''generic_name'' sg] else []) @
        (if truthy (read_prop i ''dosage_form'') then [exact_part ''dosage_form'' sd] else [])))))"
    unfolding build_query_def
    using no len' nm
    by (simp only: digitsOnly_of_def jsval.case sum.case if_False if_True
        push_parts_strings [OF sb sg sd])
  show ?thesis
    unfolding q label_url_of_parts [OF some] ..
qed

lemma build_query_label_error:
  assumes no: "\<not> truthy (js_or (read_prop i ''ndc'') (read_prop i ''product_ndc''))"
    and len: "length (digits_of b) \<notin> {10, 11, 12}"
    and nm: "truthy (js_or (read_prop i ''brand_name'') (read_prop i ''generic_name''))"
    and bad: "(truthy (read_prop i ''brand_name'') \<and>
                 to_string P (read_prop i ''brand_name'') = Inl TypeError) \<or>
              (truthy (read_prop i ''generic_name'') \<and>
                 to_string P (read_prop i ''generic_name'') = Inl TypeError) \<or>
              (truthy (read_prop i ''dosage_form'') \<and>
                 to_string P (read_prop i ''dosage_form'') = Inl TypeError)"
  shows "build_query P i (JStr b) = Inl TypeError"
proof -
  from len have len': "\<not> (digits_of b \<noteq> [] \<and> (length (digits_of b) = 10 \<or>
      length (digits_of b) = 11 \<or> length (digits_of b) = 12))" by simp
  have "\<not> list_all (\<lambda>n. \<not> truthy (read_prop i n) \<or> stringifiable P (read_prop i n))
          [''brand_name'', ''generic_name'', ''dosage_form'']"
    using bad by (auto simp add: stringifiable_def)
  hence "\<not> (\<exists>parts. push_part P i ''dosage_form''
      (push_part P i ''generic_name'' (push_part P i ''brand_name'' (Inr []))) = Inr parts)"
    unfolding push_parts_usable .
  then obtain e where e: "push_part P i ''dosage_form''
      (push_part P i ''generic_name'' (push_part P i ''brand_name'' (Inr []))) = Inl e"
    by (cases "push_part P i ''dosage_form''
      (push_part P i ''generic_name'' (push_part P i ''brand_name'' (Inr [])))") auto
  from push_parts_only_TypeError [OF e] have "e = TypeError" .
  with e show ?thesis
    unfolding build_query_def
    using no len' nm
    by (simp only: digitsOnly_of_def jsval.case sum.case if_False if_True)
qed

lemma build_query_code_path:
  assumes "truthy (js_or (read_prop i ''ndc'') (read_prop i ''product_ndc''))"
  shows "build_query P i (JStr b) =
     (case encodeURIComponent P (js_or (read_prop i ''ndc'') (read_prop i ''product_ndc'')) of
        Inl e \<Rightarrow> Inl e
      | Inr code \<Rightarrow>
          Inr (Some (''https://api.fda.gov/drug/ndc.json?search=product_ndc:'' @ code @
                     ''&limit=1'')))"
  using assms by (simp add: build_query_def digitsOnly_of_def ndc_url_def split: sum.splits)

lemma build_query_none_path:
  assumes "\<not> truthy (js_or (read_prop i ''ndc'') (read_prop i ''product_ndc''))"
    and "length (digits_of b) \<notin> {10, 11, 12}"
    and "\<not> truthy (js_or (read_prop i ''brand_name'') (read_prop i ''generic_name''))"
  shows "build_query P i (JStr b) = Inr None"
  using assms by (auto simp add: build_query_def digitsOnly_of_def)

lemma lookup_fetches_at_most_once: "length (fetched (lookup P i b)) \<le> 1"
proof (cases "build_query P i b")
  case (Inl e)
  thus ?thesis by (simp add: lookup_of_error)
next
  case (Inr q)
  show ?thesis
  proof (cases q)
    case None
    with Inr show ?thesis by (simp add: lookup_of_none)
  next
    case (Some u)
    with Inr have "build_query P i b = Inr (Some u)" by simp
    from lookup_of_url [OF this] show ?thesis by simp
  qed
qed

text \<open>
  Claim C3, as the handler has it, for every identity and every barcode string.  At most one
  request is made.

  (1) When the identity has a product code (\<open>ndc\<close>, else \<open>product_ndc\<close>, is truthy): if
  \<open>encodeURIComponent\<close> accepts it, the product-code query for its encoding is the one URL
  fetched, whatever the names say; if not (the code does not convert to a string, or its
  string has an unpaired surrogate), the handler throws that error and fetches nothing.
  (2) Else, when the barcode has 10, 11 or 12 digits, the product-code query for those digits
  is the one URL fetched.
  (3) Else, when a brand name or a generic name is present: if each present one of brand
  name, generic name and dosage form converts to a string, the one URL fetched is the label
  query whose search is the exact-match terms of the present fields, in that order, joined
  with \<open>+AND+\<close>; if one of them does not convert, the handler throws a \<open>TypeError\<close> and fetches
  nothing.
  (4) Else no query is built, nothing is fetched, and the answer is \<open>Not_Found\<close>.
\<close>

theorem lookup_precedence:
  "(truthy (js_or (read_prop identity ''ndc'') (read_prop identity ''product_ndc'')) \<longrightarrow>
      (\<forall>code.
         encodeURIComponent P (js_or (read_prop identity ''ndc'') (read_prop identity ''product_ndc''))
           = Inr code \<longrightarrow>
         build_query P identity (JStr b) =
           Inr (Some (''https://api.fda.gov/drug/ndc.json?search=product_ndc:'' @ code @
                      ''&limit=1'')) \<and>
         fetched (lookup P identity (JStr b)) =
           [''https://api.fda.gov/drug/ndc.json?search=product_ndc:'' @ code @ ''&limit=1'']) \<and>
      (\<forall>e.
         encodeURIComponent P (js_or (read_prop identity ''ndc'') (read_prop identity ''product_ndc''))
           = Inl e \<longrightarrow>
         (e = TypeError \<or> e = URIError) \<and>
         lookup P identity (JStr b) = \<lparr>outcome = Inl e, fetched = [], logged = []\<rparr>)) \<and>
   (\<not> truthy (js_or (read_prop identity ''ndc'') (read_prop identity ''product_ndc'')) \<and>
    length (digits_of b) \<in> {10, 11, 12} \<longrightarrow>
      build_query P identity (JStr b) =
        Inr (Some (''https://api.fda.gov/drug/ndc.json?search=product_ndc:'' @ digits_of b @
                   ''&limit=1'')) \<and>
      fetched (lookup P identity (JStr b)) =
        [''https://api.fda.gov/drug/ndc.json?search=product_ndc:'' @ digits_of b @
         ''&limit=1'']) \<and>
   (\<not> truthy (js_or (read_prop identity ''ndc'') (read_prop identity ''product_ndc'')) \<and>
    length (digits_of b) \<notin> {10, 11, 12} \<and>
    truthy (js_or (read_prop identity ''brand_name'') (read_prop identity ''generic_name'')) \<longrightarrow>
      (\<forall>sb sg sd.
         (truthy (read_prop identity ''brand_name'') \<longrightarrow>
            to_string P (read_prop identity ''brand_name'') = Inr sb) \<and>
         (truthy (read_prop identity ''generic_name'') \<longrightarrow>
            to_string P (read_prop identity ''generic_name'') = Inr sg) \<and>
         (truthy (read_prop identity ''dosage_form'') \<longrightarrow>
            to_string P (read_prop identity ''dosage_form'') = Inr sd) \<longrightarrow>
         build_query P identity (JStr b) =
           Inr (Some
             (''https://api.fda.gov/drug/label.json?search='' @
              (if truthy (read_prop identity ''brand_name'')
               then ''openfda.brand_name.exact:'' @ [CHR 0x22] @ sb @ [CHR 0x22] else []) @
              (if truthy (read_prop identity ''brand_name'') \<and>
                  truthy (read_prop identity ''generic_name'')
               then ''+AND+'' else []) @
              (if truthy (read_prop identity ''generic_name'')
               then ''openfda.generic_name.exact:'' @ [CHR 0x22] @ sg @ [CHR 0x22] else []) @
              (if truthy (read_prop identity ''dosage_form'')
               then ''+AND+openfda.dosage_form.exact:'' @ [CHR 0x22] @ sd @ [CHR 0x22] else []) @
              ''&limit=1'')) \<and>
         fetched (lookup P identity (JStr b)) =
           [''https://api.fda.gov/drug/label.json?search='' @
            (if truthy (read_prop identity ''brand_name'')
             then ''openfda.brand_name.exact:'' @ [CHR 0x22] @ sb @ [CHR 0x22] else []) @
            (if truthy (read_prop identity ''brand_name'') \<and>
                truthy (read_prop identity ''generic_name'')
             then ''+AND+'' else []) @
            (if truthy (read_prop identity ''generic_name'')
             then ''openfda.generic_name.exact:'' @ [CHR 0x22] @ sg @ [CHR 0x22] else []) @
            (if truthy (read_prop identity ''dosage_form'')
             then ''+AND+openfda.dosage_form.exact:'' @ [CHR 0x22] @ sd @ [CHR 0x22] else []) @
            ''&limit=1'']) \<and>
      ((truthy (read_prop identity ''brand_name'') \<and>
          to_string P (read_prop identity ''brand_name'') = Inl TypeError) \<or>
       (truthy (read_prop identity ''generic_name'') \<and>
          to_string P (read_prop identity ''generic_name'') = Inl TypeError) \<or>
       (truthy (read_prop identity ''dosage_form'') \<and>
          to_string P (read_prop identity ''dosage_form'') = Inl TypeError) \<longrightarrow>
         lookup P identity (JStr b) =
           \<lparr>outcome = Inl TypeError, fetched = [], logged = []\<rparr>)) \<and>
   (\<not> truthy (js_or (read_prop identity ''ndc'') (read_prop identity ''product_ndc'')) \<and>
    length (digits_of b) \<notin> {10, 11, 12} \<and>
    \<not> truthy (js_or (read_prop identity ''brand_name'') (read_prop identity ''generic_name'')) \<longrightarrow>
      build_query P identity (JStr b) = Inr None \<and>
      lookup P identity (JStr b) =
        \<lparr>outcome = Inr (json_response 200 NotFoundPayload), fetched = [], logged = []\<rparr>) \<and>
   length (fetched (lookup P identity (JStr b))) \<le> 1"
proof -
  let ?code = "js_or (read_prop identity ''ndc'') (read_prop identity ''product_ndc'')"
  let ?names = "js_or (read_prop identity ''brand_name'') (read_prop identity ''generic_name'')"
  let ?bn = "read_prop identity ''brand_name''"
  let ?gn = "read_prop identity ''generic_name''"
  let ?df = "read_prop identity ''dosage_form''"
  let ?label = "\<lambda>sb sg sd.
     ''https://api.fda.gov/drug/label.json?search='' @
     (if truthy ?bn then ''openfda.brand_name.exact:'' @ [CHR 0x22] @ sb @ [CHR 0x22] else []) @
     (if truthy ?bn \<and> truthy ?gn then ''+AND+'' else []) @
     (if truthy ?gn then ''openfda.generic_name.exact:'' @ [CHR 0x22] @ sg @ [CHR 0x22] else []) @
     (if truthy ?df
      then ''+AND+openfda.dosage_form.exact:'' @ [CHR 0x22] @ sd @ [CHR 0x22] else []) @
     ''&limit=1''"
  have p1a: "build_query P identity (JStr b) =
           Inr (Some (''https://api.fda.gov/drug/ndc.json?search=product_ndc:'' @ code @
                      ''&limit=1'')) \<and>
         fetched (lookup P identity (JStr b)) =
           [''https://api.fda.gov/drug/ndc.json?search=product_ndc:'' @ code @ ''&limit=1'']"
    if t: "truthy ?code" and c: "encodeURIComponent P ?code = Inr code" for code
  proof -
    have q: "build_query P identity (JStr b) =
           Inr (Some (''https://api.fda.gov/drug/ndc.json?search=product_ndc:'' @ code @
                      ''&limit=1''))"
      unfolding build_query_code_path [OF t] c by simp
    from lookup_of_url [OF q] q show ?thesis by simp
  qed
  have p1b: "(e = TypeError \<or> e = URIError) \<and>
         lookup P identity (JStr b) = \<lparr>outcome = Inl e, fetched = [], logged = []\<rparr>"
    if t: "truthy ?code" and c: "encodeURIComponent P ?code = Inl e" for e
  proof -
    have q: "build_query P identity (JStr b) = Inl e"
      unfolding build_query_code_path [OF t] c by simp
    from lookup_of_error [OF q] encodeURIComponent_errors [OF c] show ?thesis by simp
  qed
  have p2: "build_query P identity (JStr b) =
        Inr (Some (''https://api.fda.gov/drug/ndc.json?search=product_ndc:'' @ digits_of b @
                   ''&limit=1'')) \<and>
      fetched (lookup P identity (JStr b)) =
        [''https://api.fda.gov/drug/ndc.json?search=product_ndc:'' @ digits_of b @
         ''&limit=1'']"
    if "\<not> truthy ?code \<and> length (digits_of b) \<in> {10, 11, 12}"
  proof -
    from that have q: "build_query P identity (JStr b) = Inr (Some (ndc_url (digits_of b)))"
      by (intro build_query_barcode_path) simp_all
    from lookup_of_url [OF q] q show ?thesis by (simp add: ndc_url_def)
  qed
  have p3a: "build_query P identity (JStr b) = Inr (Some (?label sb sg sd)) \<and>
         fetched (lookup P identity (JStr b)) = [?label sb sg sd]"
    if pre: "\<not> truthy ?code \<and> length (digits_of b) \<notin> {10, 11, 12} \<and> truthy ?names"
      and conv: "(truthy ?bn \<longrightarrow> to_string P ?bn = Inr sb) \<and>
         (truthy ?gn \<longrightarrow> to_string P ?gn = Inr sg) \<and>
         (truthy ?df \<longrightarrow> to_string P ?df = Inr sd)" for sb sg sd
  proof -
    have q: "build_query P identity (JStr b) = Inr (Some (?label sb sg sd))"
      using pre conv by (intro build_query_label_path) simp_all
    from lookup_of_url [OF q] q show ?thesis by simp
  qed
  have p3b: "lookup P identity (JStr b) = \<lparr>outcome = Inl TypeError, fetched = [], logged = []\<rparr>"
    if pre: "\<not> truthy ?code \<and> length (digits_of b) \<notin> {10, 11, 12} \<and> truthy ?names"
      and bad: "(truthy ?bn \<and> to_string P ?bn = Inl TypeError) \<or>
         (truthy ?gn \<and> to_string P ?gn = Inl TypeError) \<or>
         (truthy ?df \<and> to_string P ?df = Inl TypeError)"
  proof -
    have q: "build_query P identity (JStr b) = Inl TypeError"
      using pre bad by (intro build_query_label_error) simp_all
    from lookup_of_error [OF q] show ?thesis .
  qed
  have p4: "build_query P identity (JStr b) = Inr None \<and>
      lookup P identity (JStr b) =
        \<lparr>outcome = Inr (json_response 200 NotFoundPayload), fetched = [], logged = []\<rparr>"
    if "\<not> truthy ?code \<and> length (digits_of b) \<notin> {10, 11, 12} \<and> \<not> truthy ?names"
  proof -
    from that have q: "build_query P identity (JStr b) = Inr None"
      by (intro build_query_none_path) simp_all
    from lookup_of_none [OF q] q show ?thesis by simp
  qed
  let ?enc = "encodeURIComponent P ?code"
  have c1: "truthy ?code \<longrightarrow>
      (\<forall>code. ?enc = Inr code \<longrightarrow>
         build_query P identity (JStr b) =
           Inr (Some (''https://api.fda.gov/drug/ndc.json?search=product_ndc:'' @ code @
                      ''&limit=1'')) \<and>
         fetched (lookup P identity (JStr b)) =
           [''https://api.fda.gov/drug/ndc.json?search=product_ndc:'' @ code @ ''&limit=1'']) \<and>
      (\<forall>e. ?enc = Inl e \<longrightarrow>
         (e = TypeError \<or> e = URIError) \<and>
         lookup P identity (JStr b) = \<lparr>outcome = Inl e, fetched = [], logged = []\<rparr>)"
  proof (rule impI, rule conjI)
    assume t: "truthy ?code"
    show "\<forall>code. ?enc = Inr code \<longrightarrow>
         build_query P identity (JStr b) =
           Inr (Some (''https://api.fda.gov/drug/ndc.json?search=product_ndc:'' @ code @
                      ''&limit=1'')) \<and>
         fetched (lookup P identity (JStr b)) =
           [''https://api.fda.gov/drug/ndc.json?search=product_ndc:'' @ code @ ''&limit=1'']"
      by (intro allI impI) (rule p1a [OF t])
  next
    assume t: "truthy ?code"
    show "\<forall>e. ?enc = Inl e \<longrightarrow>
         (e = TypeError \<or> e = URIError) \<and>
         lookup P identity (JStr b) = \<lparr>outcome = Inl e, fetched = [], logged = []\<rparr>"
      by (intro allI impI) (rule p1b [OF t])
  qed
  have c2: "\<not> truthy ?code \<and> length (digits_of b) \<in> {10, 11, 12} \<longrightarrow>
      build_query P identity (JStr b) =
        Inr (Some (''https://api.fda.gov/drug/ndc.json?search=product_ndc:'' @ digits_of b @
                   ''&limit=1'')) \<and>
      fetched (lookup P identity (JStr b)) =
        [''https://api.fda.gov/drug/ndc.json?search=product_ndc:'' @ digits_of b @
         ''&limit=1'']"
    by (rule impI) (rule p2)
  have c3: "\<not> truthy ?code \<and> length (digits_of b) \<notin> {10, 11, 12} \<and> truthy ?names \<longrightarrow>
      (\<forall>sb sg sd.
         (truthy ?bn \<longrightarrow> to_string P ?bn = Inr sb) \<and>
         (truthy ?gn \<longrightarrow> to_string P ?gn = Inr sg) \<and>
         (truthy ?df \<longrightarrow> to_string P ?df = Inr sd) \<longrightarrow>
         build_query P identity (JStr b) = Inr (Some (?label sb sg sd)) \<and>
         fetched (lookup P identity (JStr b)) = [?label sb sg sd]) \<and>
      ((truthy ?bn \<and> to_string P ?bn = Inl TypeError) \<or>
       (truthy ?gn \<and> to_string P ?gn = Inl TypeError) \<or>
       (truthy ?df \<and> to_string P ?df = Inl TypeError) \<longrightarrow>
         lookup P identity (JStr b) =
           \<lparr>outcome = Inl TypeError, fetched = [], logged = []\<rparr>)"
  proof (rule impI, rule conjI)
    assume pre: "\<not> truthy ?code \<and> length (digits_of b) \<notin> {10, 11, 12} \<and> truthy ?names"
    show "\<forall>sb sg sd.
         (truthy ?bn \<longrightarrow> to_string P ?bn = Inr sb) \<and>
         (truthy ?gn \<longrightarrow> to_string P ?gn = Inr sg) \<and>
         (truthy ?df \<longrightarrow> to_string P ?df = Inr sd) \<longrightarrow>
         build_query P identity (JStr b) = Inr (Some (?label sb sg sd)) \<and>
         fetched (lookup P identity (JStr b)) = [?label sb sg sd]"
      by (intro allI impI) (rule p3a [OF pre])
  next
    assume pre: "\<not> truthy ?code \<and> length (digits_of b) \<notin> {10, 11, 12} \<and> truthy ?names"
    show "(truthy ?bn \<and> to_string P ?bn = Inl TypeError) \<or>
       (truthy ?gn \<and> to_string P ?gn = Inl TypeError) \<or>
       (truthy ?df \<and> to_string P ?df = Inl TypeError) \<longrightarrow>
         lookup P identity (JStr b) =
           \<lparr>outcome = Inl TypeError, fetched = [], logged = []\<rparr>"
      by (rule impI) (rule p3b [OF pre])
  qed
  have c4: "\<not> truthy ?code \<and> length (digits_of b) \<notin> {10, 11, 12} \<and> \<not> truthy ?names \<longrightarrow>
      build_query P identity (JStr b) = Inr None \<and>
      lookup P identity (JStr b) =
        \<lparr>outcome = Inr (json_response 200 NotFoundPayload), fetched = [], logged = []\<rparr>"
    by (rule impI) (rule p4)
  have c5: "length (fetched (lookup P identity (JStr b))) \<le> 1"
    by (rule lookup_fetches_at_most_once)
  show ?thesis
    by (rule conjI [OF c1 conjI [OF c2 conjI [OF c3 conjI [OF c4 c5]]]])
qed

lemma sample_code_encoding:
  "encodeURIComponent sample_platform (JStr ''12345-678-90'') = Inr ''12345-678-90''"
  by (simp add: encodeURIComponent_def percent_encode_def percent_escape_def
      uri_unreserved_def byte_def)

lemma sample_identity_fields:
  "read_prop identity_code_and_brand ''ndc'' = JStr ''12345-678-90''"
  "read_prop identity_code_and_brand ''brand_name'' = JStr ''Advil''"
  "read_prop identity_brand_and_form ''ndc'' = JUndefined"
  "read_prop identity_brand_and_form ''product_ndc'' = JUndefined"
  "read_prop identity_brand_and_form ''brand_name'' = JStr ''Advil''"
  "read_prop identity_brand_and_form ''generic_name'' = JUndefined"
  "read_prop identity_brand_and_form ''dosage_form'' = JStr ''TABLET''"
  by (simp_all add: identity_code_and_brand_def identity_brand_and_form_def own_def)

theorem lookup_precedence_witness:
  "truthy (read_prop identity_code_and_brand ''brand_name'') \<and>
   fetched (lookup sample_platform identity_code_and_brand (JStr [])) =
     [''https://api.fda.gov/drug/ndc.json?search=product_ndc:12345-678-90&limit=1''] \<and>
   fetched (lookup sample_platform (JObj []) (JStr ''0 12345 67890'')) =
     [''https://api.fda.gov/drug/ndc.json?search=product_ndc:01234567890&limit=1''] \<and>
   fetched (lookup sample_platform identity_brand_and_form (JStr ''0123456789012'')) =
     [''https://api.fda.gov/drug/label.json?search=openfda.brand_name.exact:'' @ [CHR 0x22] @
      ''Advil'' @ [CHR 0x22] @ ''+AND+openfda.dosage_form.exact:'' @ [CHR 0x22] @ ''TABLET'' @
      [CHR 0x22] @ ''&limit=1''] \<and>
   lookup sample_platform (JObj []) (JStr ''0123456789012'') =
     \<lparr>outcome = Inr (json_response 200 NotFoundPayload), fetched = [], logged = []\<rparr>"
proof -
  note by_code =
    lookup_precedence [of identity_code_and_brand sample_platform "[]", THEN conjunct1,
      rule_format, THEN conjunct1, rule_format, THEN conjunct2, of "''12345-678-90''"]
  note by_digits =
    lookup_precedence [of "JObj []" sample_platform "''0 12345 67890''", THEN conjunct2,
      THEN conjunct1, rule_format, THEN conjunct2]
  note by_names =
    lookup_precedence [of identity_brand_and_form sample_platform "''0123456789012''",
      THEN conjunct2, THEN conjunct2, THEN conjunct1, rule_format, THEN conjunct1,
      rule_format, THEN conjunct2, of "''Advil''" "[]" "''TABLET''"]
  note by_none =
    lookup_precedence [of "JObj []" sample_platform "''0123456789012''", THEN conjunct2,
      THEN conjunct2, THEN conjunct2, THEN conjunct1, rule_format, THEN conjunct2]
  have a: "fetched (lookup sample_platform identity_code_and_brand (JStr [])) =
     [''https://api.fda.gov/drug/ndc.json?search=product_ndc:12345-678-90&limit=1'']"
    using by_code sample_code_encoding
    by (simp add: sample_identity_fields js_or_def)
  have b: "fetched (lookup sample_platform (JObj []) (JStr ''0 12345 67890'')) =
     [''https://api.fda.gov/drug/ndc.json?search=product_ndc:01234567890&limit=1'']"
    using by_digits
    by (simp add: js_or_def own_def digits_examples)
  have c: "fetched (lookup sample_platform identity_brand_and_form (JStr ''0123456789012'')) =
     [''https://api.fda.gov/drug/label.json?search=openfda.brand_name.exact:'' @ [CHR 0x22] @
      ''Advil'' @ [CHR 0x22] @ ''+AND+openfda.dosage_form.exact:'' @ [CHR 0x22] @ ''TABLET'' @
      [CHR 0x22] @ ''&limit=1'']"
    using by_names
    by (simp add: sample_identity_fields digits_examples js_or_def)
  have d: "lookup sample_platform (JObj []) (JStr ''0123456789012'') =
     \<lparr>outcome = Inr (json_response 200 NotFoundPayload), fetched = [], logged = []\<rparr>"
    using by_none
    by (simp add: js_or_def own_def digits_examples)
  have e: "truthy (read_prop identity_code_and_brand ''brand_name'')"
    by (simp add: sample_identity_fields)
  show ?thesis by (rule conjI [OF e conjI [OF a conjI [OF b conjI [OF c d]]]])
qed

text \<open>
  Claim C3 as the specification states it fails for an identity whose product code cannot be
  put into the URL.  With the product code \<open>{toString: 'x'}\<close> the handler throws a
  \<open>TypeError\<close>, with a product code holding a lone surrogate it throws a \<open>URIError\<close>: a product
  code is present, no product-code query is issued, and the result is not \<open>Not_Found\<close> either;
  the route answers 500.
\<close>

theorem lookup_precedence_counterexample:
  "truthy (js_or (read_prop identity_code_object ''ndc'')
                 (read_prop identity_code_object ''product_ndc'')) \<and>
   lookup sample_platform identity_code_object (JStr []) =
     \<lparr>outcome = Inl TypeError, fetched = [], logged = []\<rparr> \<and>
   truthy (js_or (read_prop identity_code_surrogate ''ndc'')
                 (read_prop identity_code_surrogate ''product_ndc'')) \<and>
   lookup sample_platform identity_code_surrogate (JStr []) =
     \<lparr>outcome = Inl URIError, fetched = [], logged = []\<rparr> \<and>
   JSON_parse sample_platform text_ndc_object = Some (JObj [(''identity'', identity_code_object)]) \<and>
   statusCode (identify_route sample_platform
     \<lparr>req_method = ''POST'', req_body = text_ndc_object\<rparr>) = 500"
proof -
  have a: "lookup sample_platform identity_code_object (JStr []) =
     \<lparr>outcome = Inl TypeError, fetched = [], logged = []\<rparr>"
    by (simp add: lookup_def build_query_def digitsOnly_of_def digits_of_def
        identity_code_object_def js_or_def own_def encodeURIComponent_def)
  have b: "lookup sample_platform identity_code_surrogate (JStr []) =
     \<lparr>outcome = Inl URIError, fetched = [], logged = []\<rparr>"
    by (simp add: lookup_def build_query_def digitsOnly_of_def digits_of_def
        identity_code_surrogate_def lone_surrogate_def js_or_def own_def
        encodeURIComponent_def byte_def)
  have h: "handler sample_platform \<lparr>req_method = ''POST'', req_body = text_ndc_object\<rparr> =
      lookup sample_platform identity_code_object (JStr [])"
    using sample_texts_nonempty(3)
    by (simp add: handler_def sample_parse(8) get_def nullish_def js_or_def own_def
        identity_code_object_def)
  have r: "statusCode (identify_route sample_platform
     \<lparr>req_method = ''POST'', req_body = text_ndc_object\<rparr>) = 500"
    by (simp add: identify_route_def h a internal_server_error_def)
  show ?thesis
    using a b r sample_parse(8)
    by (simp add: identity_code_object_def identity_code_surrogate_def lone_surrogate_def
        js_or_def own_def)
qed

subsection \<open>The result view\<close>

lemma read_prop_nullish: "nullish data \<Longrightarrow> read_prop data k = JUndefined"
  by (auto simp add: nullish_def)


lemma render_not_identified_fallback:
  assumes "truthy (read_prop data ''search_fallback'')"
  shows "render_not_identified P data =
     (case encodeURIComponent P
             (js_or (read_prop (read_prop data ''search_fallback'') ''query'')
                    (JStr default_query)) of
        Inl e \<Rightarrow> Inl e
      | Inr q \<Rightarrow>
          Inr (NotIdentified
                 [''https://nhathuoclongchau.com.vn/tim-kiem/'' @ q,
                  ''https://www.google.com/search?q=site:vinmec.com+'' @ q,
                  ''https://www.pharmacity.vn/tim-kiem/'' @ q]))"
proof -
  from assms have "\<not> nullish data" using read_prop_nullish [of data] by auto
  thus ?thesis
    using assms
    by (simp add: render_not_identified_def Let_def buildFallbackLinks_def and_then_def
        split: sum.splits)
qed








lemma sample_query_encoding:
  "encodeURIComponent P (JStr ''Panadol'') = Inr ''Panadol''"
  "encodeURIComponent P (JStr default_query) = Inr ''thu%E1%BB%91c''"
  "encodeURIComponent P (JStr lone_surrogate) = Inl URIError"
  by (simp_all add: encodeURIComponent_def percent_encode_def percent_escape_def
      uri_unreserved_def hex_digit_def default_query_def lone_surrogate_def byte_def)




subsection \<open>Further properties\<close>

text \<open>
  Round trip of the stored session: what \<open>saveSession\<close> writes once the database has opened,
  \<open>loadSession\<close> reads back into the two variables, on any page state over the same database.
\<close>

lemma session_round_trip:
  "fst (loadSession True (b\<lparr>db := db (saveSession True a)\<rparr>)) \<and>
   imageCounter (snd (loadSession True (b\<lparr>db := db (saveSession True a)\<rparr>))) = imageCounter a \<and>
   capturedImages (snd (loadSession True (b\<lparr>db := db (saveSession True a)\<rparr>)))
     = capturedImages a"
  by (simp add: loadSession_def saveSession_def)

text \<open>
  A second click on the confirm button before \<open>openDB\<close> has settled for the first: the draft
  is still in place, so it is appended and counted a second time.  From the first draft both
  clicks together reach the counter 2 with the same image twice, the record stored when the
  first \<open>openDB\<close> settles already has both, and the wizard ends in \<open>Finalizing\<close>.
\<close>

lemma second_confirm_click_before_settling:
  assumes "is_Reviewing i d a"
  shows "capturedImages (confirmButton_click (confirmButton_click a)) = capturedImages a @ [d, d]"
    and "imageCounter (confirmButton_click (confirmButton_click a)) = i + 2"
    and "suspended (confirmButton_click (confirmButton_click a)) =
           [AwaitSaveSession, AwaitSaveSession]"
    and "session (db (openDB_settled True (confirmButton_click (confirmButton_click a))))
           SESSION_ID =
         Some \<lparr>saved_imageCounter = i + 2, saved_capturedImages = capturedImages a @ [d, d]\<rparr>"
    and "is_Finalizing
           (openDB_settled ok_b
              (openDB_settled ok_a (confirmButton_click (confirmButton_click a))))"
  using assms
  by (simp_all add: is_Reviewing_def is_Finalizing_def confirmButton_click_def
      openDB_settled_def confirm_resume_def saveSession_def processImages_begin_def Let_def)

text \<open>
  From \<open>Idle 0\<close>, two captures each followed by a confirm pass through \<open>Idle 1\<close> and end in
  \<open>Finalizing\<close> with exactly the two drafts appended, in order.
\<close>

lemma two_confirms_reach_finalizing:
  assumes "is_Idle 0 a" "d1 \<noteq> []" "d2 \<noteq> []"
  shows "is_Idle 1 (confirm ok_a (capture d1 a))"
    and "is_Finalizing (confirm ok_b (capture d2 (confirm ok_a (capture d1 a))))"
    and "capturedImages (confirm ok_b (capture d2 (confirm ok_a (capture d1 a))))
           = capturedImages a @ [d1, d2]"
    and "imageCounter (confirm ok_b (capture d2 (confirm ok_a (capture d1 a)))) = 2"
proof -
  let ?r1 = "capture d1 a"
  let ?b = "confirm ok_a ?r1"
  let ?r2 = "capture d2 ?b"
  let ?c = "confirm ok_b ?r2"
  have r1: "is_Reviewing 0 d1 ?r1" using assms(1,2) by (rule capture_Reviewing)
  show b: "is_Idle 1 ?b" using confirm_next_screen [OF r1, of ok_a] by simp
  have r2: "is_Reviewing 1 d2 ?r2" using b assms(3) by (rule capture_Reviewing)
  show "is_Finalizing ?c" using confirm_next_screen [OF r2, of ok_b] by simp
  have i1: "capturedImages ?b = capturedImages a @ [d1]"
    using confirm_images(1) [OF r1, of ok_a] by (simp add: capture_frame)
  show "capturedImages ?c = capturedImages a @ [d1, d2]"
    using confirm_images(1) [OF r2, of ok_b] i1 by (simp add: capture_frame)
  show "imageCounter ?c = 2"
    using confirm_images(2) [OF r2, of ok_b] by simp
qed

text \<open>
  End to end with a product code: the identity \<open>{ndc: "12345-678-90"}\<close> and an empty barcode
  give the product-code query; the remote answer with \<open>openfda.brand_name = ["Acme"]\<close> comes
  back as \<open>OK\<close> with the brand name \<open>Acme\<close> and the query URL as its source.
\<close>

lemma product_code_end_to_end:
  "handler sample_platform \<lparr>req_method = ''POST'', req_body = text_with_ndc\<rparr> =
     \<lparr>outcome = Inr (json_response 200
       (OkPayload
          \<lparr>drug_brand_name = JStr ''Acme'', drug_generic_name = JUndefined,
           drug_ndc = JUndefined, drug_route = JUndefined, drug_dosage_form = JUndefined,
           drug_active_ingredients = JUndefined, drug_indications = JUndefined,
           drug_dosage = JUndefined, drug_warnings = JUndefined,
           drug_adverse_reactions = JUndefined,
           drug_information_for_patients = JUndefined\<rparr>
          [\<lparr>source_name = ''openFDA'',
            source_url =
              ''https://api.fda.gov/drug/ndc.json?search=product_ndc:12345-678-90&limit=1''\<rparr>])),
      fetched = [''https://api.fda.gov/drug/ndc.json?search=product_ndc:12345-678-90&limit=1''],
      logged = []\<rparr>"
proof -
  let ?i = "JObj [(''ndc'', JStr ''12345-678-90'')]"
  let ?u = "''https://api.fda.gov/drug/ndc.json?search=product_ndc:12345-678-90&limit=1''"
  have h: "handler sample_platform \<lparr>req_method = ''POST'', req_body = text_with_ndc\<rparr> =
      lookup sample_platform ?i (JStr [])"
    using sample_texts_nonempty(2)
    by (simp add: handler_def sample_parse(5) get_def nullish_def js_or_def own_def)
  have q: "build_query sample_platform ?i (JStr []) = Inr (Some ?u)"
    by (simp add: build_query_def digitsOnly_of_def digits_of_def js_or_def own_def
        sample_code_encoding ndc_url_def)
  have g: "http_get sample_platform ?u = HttpResponse 200 text_acme"
    using sample_http(4) by (simp add: ndc_url_def)
  have f: "fetch_drug sample_platform ?u =
      (Some \<lparr>drug_brand_name = JStr ''Acme'', drug_generic_name = JUndefined,
           drug_ndc = JUndefined, drug_route = JUndefined, drug_dosage_form = JUndefined,
           drug_active_ingredients = JUndefined, drug_indications = JUndefined,
           drug_dosage = JUndefined, drug_warnings = JUndefined,
           drug_adverse_reactions = JUndefined,
           drug_information_for_patients = JUndefined\<rparr>,
       [\<lparr>source_name = ''openFDA'', source_url = ?u\<rparr>], [], [?u])"
    unfolding fetch_drug_def doFetch_def g
    by (simp add: sample_parse(6) get_def nullish_def js_or_def own_def js_greater_def
        to_number_def Let_def mapOpenFdaResult_def first_or_undefined_def)
  show ?thesis
    unfolding h lookup_def q by (simp add: f)
qed

text \<open>
  The view with the default query and with a query that cannot be encoded: a fallback entry
  without a query gives the three links for the default word; a query holding a lone
  surrogate makes the view throw, and the error box is shown.
\<close>

lemma fallback_query_examples:
  "displayResult sample_platform record_without_query =
     Inr (NotIdentified
            [''https://nhathuoclongchau.com.vn/tim-kiem/thu%E1%BB%91c'',
             ''https://www.google.com/search?q=site:vinmec.com+thu%E1%BB%91c'',
             ''https://www.pharmacity.vn/tim-kiem/thu%E1%BB%91c''])"
  "displayResult sample_platform record_query_surrogate = Inl URIError"
  "processImages_display sample_platform record_query_surrogate = ShowsError"
proof -
  have t1: "truthy (read_prop record_without_query ''search_fallback'')"
    "js_or (read_prop (read_prop record_without_query ''search_fallback'') ''query'')
       (JStr default_query) = JStr default_query"
    by (simp_all add: record_without_query_def own_def js_or_def)
  have t2: "truthy (read_prop record_query_surrogate ''search_fallback'')"
    "js_or (read_prop (read_prop record_query_surrogate ''search_fallback'') ''query'')
       (JStr default_query) = JStr lone_surrogate"
    by (simp_all add: record_query_surrogate_def own_def js_or_def lone_surrogate_def)
  have d1: "displayResult sample_platform record_without_query =
      render_not_identified sample_platform record_without_query"
    by (simp add: displayResult_def record_without_query_def own_def js_less_def
        to_number_def and_then_def CONFIDENCE_THRESHOLD_def)
  have d2: "displayResult sample_platform record_query_surrogate =
      render_not_identified sample_platform record_query_surrogate"
    by (simp add: displayResult_def record_query_surrogate_def own_def js_less_def
        to_number_def and_then_def CONFIDENCE_THRESHOLD_def)
  show "displayResult sample_platform record_without_query =
     Inr (NotIdentified
            [''https://nhathuoclongchau.com.vn/tim-kiem/thu%E1%BB%91c'',
             ''https://www.google.com/search?q=site:vinmec.com+thu%E1%BB%91c'',
             ''https://www.pharmacity.vn/tim-kiem/thu%E1%BB%91c''])"
    unfolding d1 render_not_identified_fallback [OF t1(1)] t1(2) sample_query_encoding(2)
    by simp
  show s: "displayResult sample_platform record_query_surrogate = Inl URIError"
    unfolding d2 render_not_identified_fallback [OF t2(1)] t2(2) sample_query_encoding(3)
    by simp
  show "processImages_display sample_platform record_query_surrogate = ShowsError"
    by (simp add: processImages_display_def s)
qed


end
